theory Spec2Isabelle
  imports Main
begin

section \<open>Storage: entities, tasks and audit logs\<close>

text \<open>
  Modelled from the spec: models.py (the ORM classes \<open>Entity\<close>, \<open>Task\<close> and
  \<open>TaskLog\<close> and the enumeration \<open>TaskStatus\<close>) is not among the sources. The
  records hold the fields the routers read and write; the spec's task has an
  identifier, a status out of a small fixed set that includes pending, in-progress
  and completed, a project identifier and a collection of assignee identifiers.

  The routers work on ORM objects loaded from a relational store. The store is a
  record of tables; a table is the list of its rows in table order. A task row carries
  its \<open>assignees\<close> collection as the routers see it after \<open>selectinload(Task.assignees)\<close>:
  the primary keys of the related entities (two entity objects of one session are the
  same object exactly when their primary keys are equal, so \<open>entity in task.assignees\<close>
  is membership of the key).
\<close>

datatype TaskStatus = PENDING | IN_PROGRESS | COMPLETED | OTHER_STATUS string

record Entity =
  entity_id :: int
  entity_name :: string

record Task =
  task_id :: int
  task_title :: string
  task_status :: TaskStatus
  task_project_id :: int
  assignees :: "int list"

record TaskLog =
  log_task_id :: int
  message :: string
  log_type :: string

record db =
  entities :: "Entity list"
  tasks :: "Task list"
  task_logs :: "TaskLog list"

text \<open>
  Exceptions are values. Every constructor stands for an instance of a subclass of
  Python's \<open>Exception\<close>, which is what the handlers of the routers match
  (\<open>except Exception\<close>): \<open>HTTPException status detail\<close> of FastAPI,
  \<open>MultipleResultsFound\<close> of \<open>scalar_one_or_none\<close>, \<open>NameError name\<close> for a
  global name that is not bound, \<open>WebSocketDisconnect\<close> of a closed transport, and
  \<open>PyException msg\<close> for any other one (storage unavailable, a send on a dead peer).
  What is raised outside that class (task cancellation, \<open>KeyboardInterrupt\<close>,
  \<open>SystemExit\<close>) stops the process and is not part of the model.
\<close>

datatype exc =
    HTTPException nat string
  | MultipleResultsFound
  | NameError string
  | WebSocketDisconnect
  | PyException string

text \<open>\<open>Result.scalar_one_or_none()\<close>: no row, the one row, or an exception on
  more than one row.\<close>

fun scalar_one_or_none :: "'a list \<Rightarrow> exc + 'a option" where
  "scalar_one_or_none [] = Inr None"
| "scalar_one_or_none [x] = Inr (Some x)"
| "scalar_one_or_none (x # y # zs) = Inl MultipleResultsFound"

text \<open>\<open>select(Task).filter(Task.id == task_id)\<close> and
  \<open>select(Entity).filter(Entity.id == entity_id)\<close>, executed.\<close>

definition select_task :: "db \<Rightarrow> int \<Rightarrow> Task list" where
  "select_task d tid = filter (\<lambda>t. task_id t = tid) (tasks d)"

definition select_entity :: "db \<Rightarrow> int \<Rightarrow> Entity list" where
  "select_entity d eid = filter (\<lambda>e. entity_id e = eid) (entities d)"

text \<open>Flushing a modified task object writes its row back by primary key.\<close>

definition flush_task :: "Task \<Rightarrow> Task list \<Rightarrow> Task list" where
  "flush_task t rows = map (\<lambda>r. if task_id r = task_id t then t else r) rows"

section \<open>routers/tasks.py: task assignment\<close>

text \<open>
  \<open>assign_task\<close> (POST /tasks/{task_id}/assign) returns the response (an exception or
  the task) and the store it leaves. The commit happens only in the branch that
  appends; \<open>db.refresh(task)\<close> reloads the row just written.
\<close>

definition assign_task :: "int \<Rightarrow> int \<Rightarrow> db \<Rightarrow> (exc + Task) \<times> db" where
  "assign_task tid eid d =
     (case scalar_one_or_none (select_task d tid) of
        Inl e \<Rightarrow> (Inl e, d)
      | Inr None \<Rightarrow> (Inl (HTTPException 404 ''Task not found''), d)
      | Inr (Some task) \<Rightarrow>
          (case scalar_one_or_none (select_entity d eid) of
             Inl e \<Rightarrow> (Inl e, d)
           | Inr None \<Rightarrow> (Inl (HTTPException 404 ''Entity not found''), d)
           | Inr (Some entity) \<Rightarrow>
               if entity_id entity \<notin> set (assignees task)
               then (let task' = task\<lparr>assignees := assignees task @ [entity_id entity]\<rparr>
                     in (Inr task', d\<lparr>tasks := flush_task task' (tasks d)\<rparr>))
               else (Inr task, d)))"

text \<open>\<open>self_assign_task\<close> (POST /tasks/{task_id}/self-assign), translated from its
  own source text.\<close>

definition self_assign_task :: "int \<Rightarrow> int \<Rightarrow> db \<Rightarrow> (exc + Task) \<times> db" where
  "self_assign_task tid eid d =
     (case scalar_one_or_none (select_task d tid) of
        Inl e \<Rightarrow> (Inl e, d)
      | Inr None \<Rightarrow> (Inl (HTTPException 404 ''Task not found''), d)
      | Inr (Some task) \<Rightarrow>
          (case scalar_one_or_none (select_entity d eid) of
             Inl e \<Rightarrow> (Inl e, d)
           | Inr None \<Rightarrow> (Inl (HTTPException 404 ''Entity not found''), d)
           | Inr (Some entity) \<Rightarrow>
               if entity_id entity \<notin> set (assignees task)
               then (let task' = task\<lparr>assignees := assignees task @ [entity_id entity]\<rparr>
                     in (Inr task', d\<lparr>tasks := flush_task task' (tasks d)\<rparr>))
               else (Inr task, d)))"

section \<open>Python strings: \<open>str\<close> of an integer, zero-padded fields, \<open>isoformat\<close>\<close>

definition digit_char :: "nat \<Rightarrow> char" where
  "digit_char k = ''0123456789'' ! (k mod 10)"

fun str_nat :: "nat \<Rightarrow> string" where
  "str_nat n = (if n < 10 then [digit_char n] else str_nat (n div 10) @ [digit_char (n mod 10)])"

declare str_nat.simps [simp del]

definition str_int :: "int \<Rightarrow> string" where
  "str_int i = (if i < 0 then CHR ''-'' # str_nat (nat (- i)) else str_nat (nat i))"

text \<open>The format \<open>%0wd\<close> (\<open>{:0wd}\<close>) of a non-negative integer: padded with zeros to
  width \<open>w\<close>, never truncated.\<close>

definition fmt_0d :: "nat \<Rightarrow> nat \<Rightarrow> string" where
  "fmt_0d w n = replicate (w - length (str_nat n)) CHR ''0'' @ str_nat n"

text \<open>A naive \<open>datetime\<close> object, as \<open>datetime.utcnow()\<close> returns it, and the ranges
  the class keeps its fields in.\<close>

record pydatetime =
  dt_year :: nat
  dt_month :: nat
  dt_day :: nat
  dt_hour :: nat
  dt_minute :: nat
  dt_second :: nat
  dt_microsecond :: nat

definition valid_datetime :: "pydatetime \<Rightarrow> bool" where
  "valid_datetime t \<longleftrightarrow>
     1 \<le> dt_year t \<and> dt_year t \<le> 9999 \<and> 1 \<le> dt_month t \<and> dt_month t \<le> 12 \<and>
     1 \<le> dt_day t \<and> dt_day t \<le> 31 \<and> dt_hour t < 24 \<and> dt_minute t < 60 \<and>
     dt_second t < 60 \<and> dt_microsecond t < 1000000"

text \<open>\<open>datetime.isoformat()\<close> with the default separator and \<open>timespec='auto'\<close>:
  \<open>YYYY-MM-DDTHH:MM:SS\<close>, followed by \<open>.ffffff\<close> when the microsecond is not 0.\<close>

definition isoformat :: "pydatetime \<Rightarrow> string" where
  "isoformat t =
     fmt_0d 4 (dt_year t) @ ''-'' @ fmt_0d 2 (dt_month t) @ ''-'' @ fmt_0d 2 (dt_day t) @ ''T'' @
     fmt_0d 2 (dt_hour t) @ '':'' @ fmt_0d 2 (dt_minute t) @ '':'' @ fmt_0d 2 (dt_second t) @
     (if dt_microsecond t = 0 then [] else ''.'' @ fmt_0d 6 (dt_microsecond t))"

text \<open>The shape of an ISO-8601 calendar date and time of day, extended format:
  \<open>dddd-dd-ddTdd:dd:dd\<close>, optionally followed by a decimal fraction of the second.\<close>

definition is_digit :: "char \<Rightarrow> bool" where
  "is_digit c \<longleftrightarrow> c \<in> set ''0123456789''"

definition digits_at :: "string \<Rightarrow> nat \<Rightarrow> nat \<Rightarrow> bool" where
  "digits_at s i n \<longleftrightarrow> list_all is_digit (take n (drop i s))"

definition is_iso8601 :: "string \<Rightarrow> bool" where
  "is_iso8601 s \<longleftrightarrow>
     19 \<le> length s \<and>
     digits_at s 0 4 \<and> s ! 4 = CHR ''-'' \<and> digits_at s 5 2 \<and> s ! 7 = CHR ''-'' \<and>
     digits_at s 8 2 \<and> s ! 10 = CHR ''T'' \<and> digits_at s 11 2 \<and> s ! 13 = CHR '':'' \<and>
     digits_at s 14 2 \<and> s ! 16 = CHR '':'' \<and> digits_at s 17 2 \<and>
     (length s = 19 \<or>
      (20 < length s \<and> s ! 19 = CHR ''.'' \<and> list_all is_digit (drop 20 s)))"

section \<open>Notifications\<close>

text \<open>A Python value of a payload dictionary, and the dictionary itself as the list of
  its items in insertion order.\<close>

datatype pyval = PyInt int | PyStr string

type_synonym pydict = "(string \<times> pyval) list"

text \<open>
  Modelled from the spec: \<open>websocket_manager.create_notification\<close> is not among the
  sources. The spec's Notification is a message with a type tag, a payload, a
  timestamp and an optional target project identifier, constructed fresh per event;
  the constructor takes the tag, the payload and the project, and the clock reading
  at construction.
\<close>

record notification =
  n_type :: string
  n_data :: pydict
  n_timestamp :: pydatetime
  n_project_id :: "int option"

definition create_notification :: "pydatetime \<Rightarrow> string \<Rightarrow> pydict \<Rightarrow> int option \<Rightarrow> notification" where
  "create_notification now ntype data pid =
     \<lparr>n_type = ntype, n_data = data, n_timestamp = now, n_project_id = pid\<rparr>"

section \<open>routers/autopilot.py: the autopilot loop\<close>

record AutopilotConfig =
  enabled :: bool
  manager_id :: "int option"

text \<open>\<open>current_config = AutopilotConfig()\<close>, and the two configuration endpoints on
  the process-wide cell.\<close>

definition initial_config :: AutopilotConfig where
  "initial_config = \<lparr>enabled = False, manager_id = None\<rparr>"

definition get_config :: "AutopilotConfig \<Rightarrow> AutopilotConfig" where
  "get_config current_config = current_config"

definition update_config :: "AutopilotConfig \<Rightarrow> AutopilotConfig \<Rightarrow> AutopilotConfig \<times> AutopilotConfig" where
  "update_config config current_config = (config, config)"

text \<open>
  The names bound in the module namespace of routers/autopilot.py by its imports,
  assignments and definitions, in source order. A global name that is neither here nor
  a builtin raises \<open>NameError\<close> when it is evaluated.
\<close>

definition autopilot_globals :: "string list" where
  "autopilot_globals =
     [''APIRouter'', ''Depends'', ''BackgroundTasks'', ''AsyncSession'', ''select'', ''get_db'',
      ''Task'', ''Entity'', ''TaskStatus'', ''asyncio'', ''Optional'', ''BaseModel'', ''router'',
      ''AutopilotConfig'', ''current_config'', ''get_config'', ''update_config'', ''engine'',
      ''sessionmaker'', ''EntityType'', ''TaskLog'', ''selectinload'', ''manager'',
      ''create_notification'', ''async_session_factory'', ''run_autopilot_loop'']"

definition load_global :: "string list \<Rightarrow> string \<Rightarrow> exc + unit" where
  "load_global ns name = (if name \<in> set ns then Inr () else Inl (NameError name))"

text \<open>
  What the loop does to the outside, in order. \<open>Lookup\<close> and \<open>Scan\<close> are the two
  queries, recorded when they are issued; \<open>Commit d\<close> is a commit that returned, with
  the store it left; \<open>Broadcast n p\<close> is a call \<open>manager.broadcast_to_project(n, p)\<close>;
  the two \<open>Print\<close> events are the two \<open>print\<close> calls; \<open>Sleep k\<close> is
  \<open>asyncio.sleep(k)\<close>.
\<close>

datatype event =
    Lookup int
  | Scan
  | Commit db
  | Print_assigned nat string
  | Print_error exc
  | Broadcast notification int
  | Sleep nat

text \<open>
  What the collaborators do in one iteration: each storage call and each broadcast
  (by its position among the iteration's broadcasts) returns or raises the given
  exception, and \<open>utcnow\<close> is the reading of the clock.
\<close>

record iter_env =
  lookup_fault :: "exc option"
  scan_fault :: "exc option"
  commit_fault :: "exc option"
  broadcast_fault :: "nat \<Rightarrow> exc option"
  utcnow :: pydatetime

text \<open>Lines 70-71: the audit message and the log object.\<close>

definition log_message :: "Entity \<Rightarrow> Task \<Rightarrow> string" where
  "log_message m t =
     ''Autopilot: Manager '' @ entity_name m @ '' self-assigned task '' @
     [CHR 0x27] @ task_title t @ [CHR 0x27]"

definition action_log :: "Task \<Rightarrow> string \<Rightarrow> TaskLog" where
  "action_log t msg = \<lparr>log_task_id = task_id t, message = msg, log_type = ''action''\<rparr>"

text \<open>Lines 63-74: the loop over the pending tasks. It returns the logs added to the
  session and \<open>processed_tasks\<close>, whose task objects carry the new assignee.\<close>

fun assign_loop :: "Entity \<Rightarrow> Task list \<Rightarrow> TaskLog list \<times> (Task \<times> string) list" where
  "assign_loop m [] = ([], [])"
| "assign_loop m (task # rest) =
     (if assignees task = []
      then (let task' = task\<lparr>assignees := assignees task @ [entity_id m]\<rparr>;
                log_msg = log_message m task';
                (logs, processed) = assign_loop m rest
            in (action_log task' log_msg # logs, (task', log_msg) # processed))
      else assign_loop m rest)"

text \<open>Line 77: the commit flushes the modified task objects and the added logs.\<close>

definition commit_session :: "db \<Rightarrow> (Task \<times> string) list \<Rightarrow> TaskLog list \<Rightarrow> db" where
  "commit_session d processed logs =
     d\<lparr>tasks := fold flush_task (map fst processed) (tasks d),
       task_logs := task_logs d @ logs\<rparr>"

text \<open>Lines 83-89: the payload dictionary, its items in source order.\<close>

definition log_payload :: "Task \<Rightarrow> string \<Rightarrow> string \<Rightarrow> pydict" where
  "log_payload task msg stamp =
     [(''task_id'', PyInt (task_id task)), (''type'', PyStr ''log''), (''message'', PyStr msg),
      (''log_type'', PyStr ''action''), (''timestamp'', PyStr stamp)]"

text \<open>Lines 81-91: the loop over \<open>processed_tasks\<close>. Evaluating the payload reads the
  global \<open>datetime\<close> before \<open>create_notification\<close> and the broadcast are called.\<close>

fun broadcast_loop ::
  "string list \<Rightarrow> iter_env \<Rightarrow> nat \<Rightarrow> (Task \<times> string) list \<Rightarrow> (exc + unit) \<times> event list" where
  "broadcast_loop ns env k [] = (Inr (), [])"
| "broadcast_loop ns env k ((task, msg) # rest) =
     (case load_global ns ''datetime'' of
        Inl e \<Rightarrow> (Inl e, [])
      | Inr _ \<Rightarrow>
          (let n = create_notification (utcnow env) ''task_update''
                     (log_payload task msg (isoformat (utcnow env))) (Some (task_project_id task));
               call = Broadcast n (task_project_id task)
           in (case broadcast_fault env k of
                 Some e \<Rightarrow> (Inl e, [call])
               | None \<Rightarrow>
                   (let (r, evs) = broadcast_loop ns env (Suc k) rest in (r, call # evs)))))"

text \<open>Lines 76-91: nothing is committed or broadcast when no task was processed; a
  commit that raises leaves the store as it was.\<close>

definition commit_and_broadcast ::
  "string list \<Rightarrow> iter_env \<Rightarrow> db \<Rightarrow> Entity \<Rightarrow> TaskLog list \<Rightarrow> (Task \<times> string) list
     \<Rightarrow> (exc + unit) \<times> db \<times> event list" where
  "commit_and_broadcast ns env d m logs processed =
     (if processed = [] then (Inr (), d, [])
      else (case commit_fault env of
              Some e \<Rightarrow> (Inl e, d, [])
            | None \<Rightarrow>
                (let d' = commit_session d processed logs;
                     (r, evs) = broadcast_loop ns env 0 processed
                 in (r, d', Commit d' # Print_assigned (length processed) (entity_name m) # evs))))"

text \<open>Lines 54-91: with the manager entity at hand, scan and assign.\<close>

definition scan_and_assign ::
  "string list \<Rightarrow> iter_env \<Rightarrow> db \<Rightarrow> Entity \<Rightarrow> (exc + unit) \<times> db \<times> event list" where
  "scan_and_assign ns env d m =
     (case scan_fault env of
        Some e \<Rightarrow> (Inl e, d, [Scan])
      | None \<Rightarrow>
          (let tasks = filter (\<lambda>t. task_status t = PENDING) (tasks d);
               (logs, processed) = assign_loop m tasks;
               (r, d', evs) = commit_and_broadcast ns env d m logs processed
           in (r, d', Scan # evs)))"

text \<open>Lines 49-91: the session block. \<open>if manager_entity\<close> is false on \<open>None\<close> only.\<close>

definition session_block ::
  "string list \<Rightarrow> iter_env \<Rightarrow> db \<Rightarrow> int \<Rightarrow> (exc + unit) \<times> db \<times> event list" where
  "session_block ns env d mid =
     (case lookup_fault env of
        Some e \<Rightarrow> (Inl e, d, [Lookup mid])
      | None \<Rightarrow>
          (case scalar_one_or_none (select_entity d mid) of
             Inl e \<Rightarrow> (Inl e, d, [Lookup mid])
           | Inr None \<Rightarrow> (Inr (), d, [Lookup mid])
           | Inr (Some manager_entity) \<Rightarrow>
               (let (r, d', evs) = scan_and_assign ns env d manager_entity
                in (r, d', Lookup mid # evs))))"

text \<open>Lines 48-93: the body of \<open>try\<close>. \<open>current_config.enabled and
  current_config.manager_id\<close> is false when the flag is off, when the identifier is
  \<open>None\<close> and when it is 0. The sleep of line 93 is reached when nothing raised.\<close>

definition try_body ::
  "string list \<Rightarrow> AutopilotConfig \<Rightarrow> iter_env \<Rightarrow> db \<Rightarrow> (exc + unit) \<times> db \<times> event list" where
  "try_body ns cfg env d =
     (case (if enabled cfg \<and> manager_id cfg \<noteq> None \<and> manager_id cfg \<noteq> Some 0
            then session_block ns env d (the (manager_id cfg))
            else (Inr (), d, [])) of
        (Inl e, d', evs) \<Rightarrow> (Inl e, d', evs)
      | (Inr u, d', evs) \<Rightarrow> (Inr u, d', evs @ [Sleep 5]))"

text \<open>Lines 47-96: one pass of \<open>while True\<close>, the handler included: an exception of
  the body is printed and followed by the same sleep.\<close>

definition autopilot_iteration ::
  "string list \<Rightarrow> AutopilotConfig \<Rightarrow> iter_env \<Rightarrow> db \<Rightarrow> db \<times> event list" where
  "autopilot_iteration ns cfg env d =
     (case try_body ns cfg env d of
        (Inr u, d', evs) \<Rightarrow> (d', evs)
      | (Inl e, d', evs) \<Rightarrow> (d', evs @ [Print_error e, Sleep 5]))"

text \<open>
  Lines 44-96: \<open>run_autopilot_loop\<close>. The loop has no exit; it is run here for as many
  passes as the script has elements, each giving the configuration the pass reads and
  what the collaborators do during it.
\<close>

fun run_autopilot_loop ::
  "string list \<Rightarrow> (AutopilotConfig \<times> iter_env) list \<Rightarrow> db \<Rightarrow> db \<times> event list" where
  "run_autopilot_loop ns [] d = (d, [])"
| "run_autopilot_loop ns ((cfg, env) # script) d =
     (let (d', evs) = autopilot_iteration ns cfg env d;
          (d'', evs') = run_autopilot_loop ns script d'
      in (d'', evs @ evs'))"

text \<open>Observers of the event list.\<close>

fun is_sleep :: "event \<Rightarrow> bool" where
  "is_sleep (Sleep k) = (k = 5)"
| "is_sleep e = False"

fun is_commit :: "event \<Rightarrow> bool" where
  "is_commit (Commit d) = True"
| "is_commit e = False"

fun is_broadcast :: "event \<Rightarrow> bool" where
  "is_broadcast (Broadcast n p) = True"
| "is_broadcast e = False"

section \<open>The connection registry\<close>

text \<open>
  Modelled from the spec: \<open>websocket_manager.py\<close> (the \<open>manager\<close> object with
  \<open>connect\<close>, \<open>disconnect\<close>, \<open>send_personal_message\<close> and \<open>broadcast_to_project\<close>) is
  not among the sources. The spec's registry state maps a scope, global or one
  project, to the set of connections subscribed to it. \<open>Connect\<close> registers the
  connection under the scope and always succeeds; \<open>Disconnect\<close> removes it and is
  idempotent; \<open>BroadcastToProject\<close> sends the notification to every connection
  subscribed to that project's scope, a send that fails is skipped and its failure is
  not propagated. A broadcast returns the sends it made: the connection, the
  notification and whether the peer's transport took it.
\<close>

type_synonym conn = nat

datatype scope = Global | Project int

type_synonym registry = "scope \<Rightarrow> conn set"

definition connect :: "conn \<Rightarrow> scope \<Rightarrow> registry \<Rightarrow> registry" where
  "connect c s reg = reg(s := insert c (reg s))"

definition disconnect :: "conn \<Rightarrow> scope \<Rightarrow> registry \<Rightarrow> registry" where
  "disconnect c s reg = reg(s := reg s - {c})"

definition broadcast_to_project ::
  "registry \<Rightarrow> (conn \<Rightarrow> bool) \<Rightarrow> notification \<Rightarrow> int \<Rightarrow> (conn \<times> notification \<times> bool) set" where
  "broadcast_to_project reg accepts n pid = (\<lambda>c. (c, n, accepts c)) ` reg (Project pid)"

section \<open>routers/websockets.py: the connection handlers\<close>

text \<open>
  The calls a handler makes on the registry, in order, and its \<open>print\<close>.
  \<open>receive_text\<close> returns a text frame or raises (\<open>WebSocketDisconnect\<close> when the
  transport closes); a send returns or raises. A handler is run against a script:
  what the greeting's send does, then for each \<open>receive_text\<close> what it gives and what
  the send of the echo does.
\<close>

datatype ws_call =
    Connect conn scope
  | Send_personal pydict conn
  | Print_ws_error exc
  | Disconnect conn scope

datatype recv = Recv_text string | Recv_raises exc

text \<open>The \<open>while True\<close> loop of both handlers: the calls it makes and the exception that
  ends it, \<open>None\<close> while it is still waiting for the next frame at the end of the
  script.\<close>

fun receive_loop :: "conn \<Rightarrow> (recv \<times> exc option) list \<Rightarrow> ws_call list \<times> exc option" where
  "receive_loop websocket [] = ([], None)"
| "receive_loop websocket ((Recv_raises e, out) # script) = ([], Some e)"
| "receive_loop websocket ((Recv_text data, out) # script) =
     (let echo = Send_personal [(''type'', PyStr ''echo''), (''message'', PyStr data)] websocket
      in (case out of
            Some e \<Rightarrow> ([echo], Some e)
          | None \<Rightarrow> (let (calls, raised) = receive_loop websocket script in (echo # calls, raised))))"

text \<open>\<open>websocket_project_updates\<close>: the registry it leaves, its calls, and whether it
  has returned.\<close>

definition websocket_project_updates ::
  "conn \<Rightarrow> int \<Rightarrow> exc option \<Rightarrow> (recv \<times> exc option) list \<Rightarrow> registry
     \<Rightarrow> registry \<times> ws_call list \<times> bool" where
  "websocket_project_updates websocket project_id greeting script reg =
     (let reg1 = connect websocket (Project project_id) reg;
          hello = Send_personal
                    [(''type'', PyStr ''connection''),
                     (''message'', PyStr (''Connected to project '' @ str_int project_id))]
                    websocket;
          (calls, raised) =
             (case greeting of Some e \<Rightarrow> ([], Some e) | None \<Rightarrow> receive_loop websocket script)
      in (case raised of
            None \<Rightarrow> (reg1, Connect websocket (Project project_id) # hello # calls, False)
          | Some WebSocketDisconnect \<Rightarrow>
              (disconnect websocket (Project project_id) reg1,
               Connect websocket (Project project_id) # hello # calls @
                 [Disconnect websocket (Project project_id)], True)
          | Some e \<Rightarrow>
              (disconnect websocket (Project project_id) reg1,
               Connect websocket (Project project_id) # hello # calls @
                 [Print_ws_error e, Disconnect websocket (Project project_id)], True)))"

text \<open>\<open>websocket_global_updates\<close>: \<open>manager.connect(websocket)\<close> without a project
  registers under the global scope.\<close>

definition websocket_global_updates ::
  "conn \<Rightarrow> exc option \<Rightarrow> (recv \<times> exc option) list \<Rightarrow> registry
     \<Rightarrow> registry \<times> ws_call list \<times> bool" where
  "websocket_global_updates websocket greeting script reg =
     (let reg1 = connect websocket Global reg;
          hello = Send_personal
                    [(''type'', PyStr ''connection''),
                     (''message'', PyStr ''Connected to global updates'')]
                    websocket;
          (calls, raised) =
             (case greeting of Some e \<Rightarrow> ([], Some e) | None \<Rightarrow> receive_loop websocket script)
      in (case raised of
            None \<Rightarrow> (reg1, Connect websocket Global # hello # calls, False)
          | Some WebSocketDisconnect \<Rightarrow>
              (disconnect websocket Global reg1,
               Connect websocket Global # hello # calls @ [Disconnect websocket Global], True)
          | Some e \<Rightarrow>
              (disconnect websocket Global reg1,
               Connect websocket Global # hello # calls @
                 [Print_ws_error e, Disconnect websocket Global], True)))"

text \<open>What a run of a handler is measured against: the text frames
  \<open>receive_text\<close> returned before the loop ended, whether the script ends the loop,
  and the messages passed to \<open>send_personal_message\<close>.\<close>

fun received_frames :: "(recv \<times> exc option) list \<Rightarrow> string list" where
  "received_frames [] = []"
| "received_frames ((Recv_raises e, out) # script) = []"
| "received_frames ((Recv_text data, out) # script) =
     data # (case out of Some e \<Rightarrow> [] | None \<Rightarrow> received_frames script)"

fun loop_ends :: "(recv \<times> exc option) list \<Rightarrow> bool" where
  "loop_ends [] = False"
| "loop_ends ((Recv_raises e, out) # script) = True"
| "loop_ends ((Recv_text data, out) # script) =
     (case out of Some e \<Rightarrow> True | None \<Rightarrow> loop_ends script)"

fun sent_messages :: "ws_call list \<Rightarrow> pydict list" where
  "sent_messages [] = []"
| "sent_messages (Send_personal m c # calls) = m # sent_messages calls"
| "sent_messages (other # calls) = sent_messages calls"

section \<open>A store, a configuration and collaborators to run the definitions on\<close>

definition ex_manager :: Entity where
  "ex_manager = \<lparr>entity_id = 1, entity_name = ''Alice''\<rparr>"

definition ex_task :: Task where
  "ex_task = \<lparr>task_id = 10, task_title = ''Fix'', task_status = PENDING, task_project_id = 7,
               assignees = []\<rparr>"

definition ex_db :: db where
  "ex_db = \<lparr>entities = [ex_manager], tasks = [ex_task], task_logs = []\<rparr>"

definition ex_now :: pydatetime where
  "ex_now = \<lparr>dt_year = 2024, dt_month = 1, dt_day = 2, dt_hour = 3, dt_minute = 4,
              dt_second = 5, dt_microsecond = 678\<rparr>"

definition ex_env :: iter_env where
  "ex_env = \<lparr>lookup_fault = None, scan_fault = None, commit_fault = None,
              broadcast_fault = (\<lambda>k. None), utcnow = ex_now\<rparr>"

definition ex_env_scan_fails :: iter_env where
  "ex_env_scan_fails = ex_env\<lparr>scan_fault := Some (PyException ''storage unavailable'')\<rparr>"

definition ex_config :: AutopilotConfig where
  "ex_config = \<lparr>enabled = True, manager_id = Some 1\<rparr>"

definition ex_log :: TaskLog where
  "ex_log = \<lparr>log_task_id = 10,
             message = ''Autopilot: Manager Alice self-assigned task '' @ [CHR 0x27] @ ''Fix'' @ [CHR 0x27],
             log_type = ''action''\<rparr>"

definition ex_db_assigned :: db where
  "ex_db_assigned =
     \<lparr>entities = [ex_manager], tasks = [ex_task\<lparr>assignees := [1]\<rparr>], task_logs = [ex_log]\<rparr>"

definition ex_notification :: notification where
  "ex_notification =
     \<lparr>n_type = ''task_update'',
      n_data = [(''task_id'', PyInt 10), (''type'', PyStr ''log''),
                (''message'', PyStr (message ex_log)), (''log_type'', PyStr ''action''),
                (''timestamp'', PyStr ''2024-01-02T03:04:05.000678'')],
      n_timestamp = ex_now, n_project_id = Some 7\<rparr>"

definition ex_assignee :: Entity where
  "ex_assignee = \<lparr>entity_id = 2, entity_name = ''Bob''\<rparr>"

definition ex_db_mixed :: db where
  "ex_db_mixed = ex_db\<lparr>entities := [ex_manager, ex_assignee],
                       tasks := [ex_task, ex_task\<lparr>task_id := 11, assignees := [2]\<rparr>]\<rparr>"





definition ex_registry :: registry where
  "ex_registry = connect 1 (Project 7) (connect 2 (Project 8) (connect 3 Global (\<lambda>s. {})))"

definition ex_script :: "(recv \<times> exc option) list" where
  "ex_script = [(Recv_text ''ping'', None), (Recv_text ''{not json'', None),
                (Recv_raises WebSocketDisconnect, None)]"

section \<open>Theorems\<close>

subsection \<open>The two assignment endpoints\<close>

lemma scalar_one_or_none_Some:
  "scalar_one_or_none xs = Inr (Some x) \<longleftrightarrow> xs = [x]"
  by (cases xs rule: scalar_one_or_none.cases) auto

lemma scalar_one_or_none_None:
  "scalar_one_or_none xs = Inr None \<longleftrightarrow> xs = []"
  by (cases xs rule: scalar_one_or_none.cases) auto

text \<open>
  C10. The endpoints \<open>assign_task\<close> and \<open>self_assign_task\<close> are behaviourally
  equivalent: for every task id, entity id and store they return the same response
  (the same 404 errors included) and leave the same store.
\<close>

theorem assign_task_self_assign_task_equiv:
  "assign_task tid eid d = self_assign_task tid eid d"
  unfolding assign_task_def self_assign_task_def by (rule refl)

subsection \<open>The store under flushes, the two loops of an iteration\<close>

lemma flush_task_ids: "map task_id (flush_task t rows) = map task_id rows"
  by (induction rows) (auto simp: flush_task_def)

lemma fold_flush_task_ids: "map task_id (fold flush_task ps rows) = map task_id rows"
  by (induction ps arbitrary: rows) (auto simp: flush_task_ids)

lemma flush_task_keeps:
  "r \<in> set rows \<Longrightarrow> task_id r \<noteq> task_id t \<Longrightarrow> r \<in> set (flush_task t rows)"
  by (auto simp: flush_task_def)

lemma fold_flush_task_keeps:
  "r \<in> set rows \<Longrightarrow> task_id r \<notin> task_id ` set ps \<Longrightarrow> r \<in> set (fold flush_task ps rows)"
  by (induction ps arbitrary: rows) (auto simp: flush_task_keeps)

lemma flush_task_set:
  "r \<in> set (flush_task t rows) \<Longrightarrow> r = t \<or> (r \<in> set rows \<and> task_id r \<noteq> task_id t)"
  by (auto simp: flush_task_def split: if_splits)

lemma fold_flush_task_set:
  "r \<in> set (fold flush_task ps rows) \<Longrightarrow>
     r \<in> set ps \<or> (r \<in> set rows \<and> task_id r \<notin> task_id ` set ps)"
proof (induction ps arbitrary: rows)
  case Nil
  then show ?case by simp
next
  case (Cons p ps)
  from Cons.prems have "r \<in> set (fold flush_task ps (flush_task p rows))" by simp
  from Cons.IH [OF this] show ?case
    by (auto dest: flush_task_set)
qed

lemma assign_loop_processed:
  "snd (assign_loop m ts) =
     map (\<lambda>t. (t\<lparr>assignees := [entity_id m]\<rparr>, log_message m (t\<lparr>assignees := [entity_id m]\<rparr>)))
       (filter (\<lambda>t. assignees t = []) ts)"
  by (induction ts) (auto simp: Let_def split: prod.splits)

lemma assign_loop_logs:
  "fst (assign_loop m ts) = map (\<lambda>(t, msg). action_log t msg) (snd (assign_loop m ts))"
  by (induction ts) (auto simp: Let_def split: prod.splits)

lemma broadcast_loop_events:
  "broadcast_loop ns env k ps = (r, evs) \<Longrightarrow> e \<in> set evs \<Longrightarrow>
     \<exists>task msg. (task, msg) \<in> set ps \<and>
       e = Broadcast (create_notification (utcnow env) ''task_update''
                        (log_payload task msg (isoformat (utcnow env))) (Some (task_project_id task)))
             (task_project_id task)"
proof (induction ps arbitrary: k r evs)
  case Nil
  then show ?case by simp
next
  case (Cons p ps)
  obtain task msg where p: "p = (task, msg)" by (cases p)
  show ?case
  proof (cases "load_global ns ''datetime''")
    case (Inl x)
    with Cons.prems p show ?thesis by simp
  next
    case (Inr u)
    show ?thesis
    proof (cases "broadcast_fault env k")
      case None
      obtain r' evs' where rec: "broadcast_loop ns env (Suc k) ps = (r', evs')"
        by (cases "broadcast_loop ns env (Suc k) ps")
      with Cons.prems p Inr None have
        "e = Broadcast (create_notification (utcnow env) ''task_update''
                        (log_payload task msg (isoformat (utcnow env))) (Some (task_project_id task)))
             (task_project_id task) \<or> e \<in> set evs'"
        by (auto simp: Let_def)
      then show ?thesis using Cons.IH [OF rec] p by auto
    next
      case (Some x)
      with Cons.prems p Inr show ?thesis by (auto simp: Let_def intro!: exI[of _ task] exI[of _ msg])
    qed
  qed
qed


lemma try_body_shape:
  assumes "try_body ns cfg env d = (r, d', evs)"
  shows "(d' = d \<and> (\<forall>e \<in> set evs. \<not> is_commit e \<and> \<not> is_broadcast e)) \<or>
         (\<exists>mid m logs processed bevs tl.
            enabled cfg \<and> manager_id cfg = Some mid \<and> mid \<noteq> 0 \<and> lookup_fault env = None \<and>
            select_entity d mid = [m] \<and> scan_fault env = None \<and> commit_fault env = None \<and>
            assign_loop m (filter (\<lambda>t. task_status t = PENDING) (tasks d)) = (logs, processed) \<and>
            processed \<noteq> [] \<and> d' = commit_session d processed logs \<and>
            broadcast_loop ns env 0 processed = (r, bevs) \<and>
            evs = Lookup mid # Scan # Commit d' # Print_assigned (length processed) (entity_name m) # bevs @ tl \<and>
            tl = (case r of Inl e \<Rightarrow> [] | Inr u \<Rightarrow> [Sleep 5]))"
  using assms
  by (auto simp: try_body_def session_block_def scan_and_assign_def commit_and_broadcast_def
        scalar_one_or_none_Some scalar_one_or_none_None Let_def
      split: if_splits option.splits sum.splits prod.splits)

lemmas ex_defs = ex_manager_def ex_task_def ex_db_def ex_now_def ex_env_def ex_config_def
  ex_db_assigned_def ex_log_def ex_env_scan_fails_def ex_notification_def ex_db_mixed_def

lemmas autopilot_defs = autopilot_iteration_def try_body_def session_block_def
  scan_and_assign_def commit_and_broadcast_def commit_session_def flush_task_def
  select_entity_def load_global_def action_log_def log_message_def log_payload_def
  create_notification_def

subsection \<open>Runs on the example store\<close>

lemma ex_isoformat: "isoformat ex_now = ''2024-01-02T03:04:05.000678''"
  by code_simp

lemma ex_run:
  "autopilot_iteration (''datetime'' # autopilot_globals) ex_config ex_env ex_db =
     (ex_db_assigned,
      [Lookup 1, Scan, Commit ex_db_assigned, Print_assigned 1 ''Alice'',
       Broadcast ex_notification 7, Sleep 5])"
  by (simp add: autopilot_defs ex_manager_def ex_task_def ex_db_def ex_env_def ex_config_def
        ex_db_assigned_def ex_log_def ex_notification_def ex_isoformat Let_def)

lemma ex_run_mixed:
  "autopilot_iteration autopilot_globals ex_config ex_env ex_db_mixed =
     (ex_db_mixed\<lparr>tasks := [ex_task\<lparr>assignees := [1]\<rparr>, ex_task\<lparr>task_id := 11, assignees := [2]\<rparr>],
                  task_logs := [ex_log]\<rparr>,
      [Lookup 1, Scan,
       Commit (ex_db_mixed\<lparr>tasks := [ex_task\<lparr>assignees := [1]\<rparr>, ex_task\<lparr>task_id := 11, assignees := [2]\<rparr>],
                  task_logs := [ex_log]\<rparr>),
       Print_assigned 1 ''Alice'', Print_error (NameError ''datetime''), Sleep 5])"
  by (simp add: autopilot_defs ex_manager_def ex_assignee_def ex_task_def ex_db_def ex_env_def
        ex_config_def ex_db_mixed_def ex_log_def autopilot_globals_def Let_def)

text \<open>
  C1. An iteration with the autopilot enabled, a manager present in the store and
  exactly one pending task without assignees should end with the task assigned to
  the manager, one audit log entry and one broadcast of type \<open>task_update\<close>/\<open>log\<close> to
  the task's project. Run on the module as it is written, the iteration commits the
  assignment and the log entry and then raises \<open>NameError\<close> on the global \<open>datetime\<close>,
  which routers/autopilot.py never imports: the handler prints the error and sleeps,
  and nothing is broadcast.
\<close>

theorem autopilot_single_task_never_broadcast:
  "autopilot_iteration autopilot_globals ex_config ex_env ex_db =
     (ex_db_assigned,
      [Lookup 1, Scan, Commit ex_db_assigned, Print_assigned 1 ''Alice'',
       Print_error (NameError ''datetime''), Sleep 5])"
  by (simp add: autopilot_defs ex_defs autopilot_globals_def Let_def)

subsection \<open>The shape of an iteration\<close>

lemma iteration_shape:
  assumes "autopilot_iteration ns cfg env d = (d', evs)"
  shows "(d' = d \<and> (\<forall>e \<in> set evs. \<not> is_commit e \<and> \<not> is_broadcast e)) \<or>
         (\<exists>mid m logs processed bevs tl r.
            enabled cfg \<and> manager_id cfg = Some mid \<and> mid \<noteq> 0 \<and> lookup_fault env = None \<and>
            select_entity d mid = [m] \<and> scan_fault env = None \<and> commit_fault env = None \<and>
            assign_loop m (filter (\<lambda>t. task_status t = PENDING) (tasks d)) = (logs, processed) \<and>
            processed \<noteq> [] \<and> d' = commit_session d processed logs \<and>
            broadcast_loop ns env 0 processed = (r, bevs) \<and>
            evs = Lookup mid # Scan # Commit d' # Print_assigned (length processed) (entity_name m) # bevs @ tl \<and>
            (\<forall>e \<in> set tl. \<not> is_broadcast e))"
proof -
  obtain r0 d0 evs0 where tb: "try_body ns cfg env d = (r0, d0, evs0)"
    by (cases "try_body ns cfg env d")
  from try_body_shape [OF tb] assms tb show ?thesis
    by (cases r0) (auto simp: autopilot_iteration_def)
qed

lemma distinct_map_eq:
  "distinct (map f xs) \<Longrightarrow> x \<in> set xs \<Longrightarrow> y \<in> set xs \<Longrightarrow> f x = f y \<Longrightarrow> x = y"
  by (meson distinct_map inj_onD)

lemma processed_ids:
  assumes "assign_loop m ts = (logs, processed)"
  shows "processed = map (\<lambda>t. (t\<lparr>assignees := [entity_id m]\<rparr>, log_message m (t\<lparr>assignees := [entity_id m]\<rparr>)))
       (filter (\<lambda>t. assignees t = []) ts)"
    and "logs = map (\<lambda>(t, msg). action_log t msg) processed"
  using assign_loop_processed [of m ts] assign_loop_logs [of m ts] assms by simp_all

lemma untouched_core:
  assumes it: "autopilot_iteration ns cfg env d = (d', evs)"
    and dist: "distinct (map task_id (tasks d))"
    and t: "t \<in> set (tasks d)" and ne: "assignees t \<noteq> []"
  shows "t \<in> set (tasks d')"
    and "filter (\<lambda>l. log_task_id l = task_id t) (task_logs d') =
         filter (\<lambda>l. log_task_id l = task_id t) (task_logs d)"
    and "Broadcast n p \<in> set evs \<Longrightarrow> map_of (n_data n) ''task_id'' \<noteq> Some (PyInt (task_id t))"
proof -
  from iteration_shape [OF it] consider
    (idle) "d' = d" "\<forall>e \<in> set evs. \<not> is_commit e \<and> \<not> is_broadcast e"
  | (acted) mid m logs processed bevs tl r where
      "assign_loop m (filter (\<lambda>t. task_status t = PENDING) (tasks d)) = (logs, processed)"
      "d' = commit_session d processed logs"
      "broadcast_loop ns env 0 processed = (r, bevs)"
      "evs = Lookup mid # Scan # Commit d' # Print_assigned (length processed) (entity_name m) # bevs @ tl"
      "\<forall>e \<in> set tl. \<not> is_broadcast e"
    by blast
  then have "t \<in> set (tasks d') \<and>
     filter (\<lambda>l. log_task_id l = task_id t) (task_logs d') =
         filter (\<lambda>l. log_task_id l = task_id t) (task_logs d) \<and>
     (Broadcast n p \<in> set evs \<longrightarrow> map_of (n_data n) ''task_id'' \<noteq> Some (PyInt (task_id t)))"
  proof cases
    case idle
    then show ?thesis using t by force
  next
    case acted
    note pr = processed_ids [OF acted(1)]
    have ids: "task_id t \<notin> task_id ` fst ` set processed"
    proof
      assume "task_id t \<in> task_id ` fst ` set processed"
      then obtain r0 where r0: "r0 \<in> set (tasks d)" "assignees r0 = []" "task_id r0 = task_id t"
        unfolding pr(1) by auto
      with distinct_map_eq [OF dist r0(1) t] ne show False by auto
    qed
    have a: "t \<in> set (tasks d')"
      using fold_flush_task_keeps [of t "tasks d" "map fst processed"] t ids
      by (simp add: acted(2) commit_session_def)
    have "filter (\<lambda>l. log_task_id l = task_id t) logs = []"
      using ids unfolding pr(2) by (auto simp: filter_empty_conv action_log_def image_iff)
    then have b: "filter (\<lambda>l. log_task_id l = task_id t) (task_logs d') =
         filter (\<lambda>l. log_task_id l = task_id t) (task_logs d)"
      by (simp add: acted(2) commit_session_def)
    have c: "map_of (n_data n) ''task_id'' \<noteq> Some (PyInt (task_id t))" if "Broadcast n p \<in> set evs"
    proof -
      from that acted(4,5) have "Broadcast n p \<in> set bevs" by auto
      from broadcast_loop_events [OF acted(3) this] obtain task msg where
        "(task, msg) \<in> set processed" "n_data n = log_payload task msg (isoformat (utcnow env))"
        by (auto simp: create_notification_def)
      with ids show ?thesis by (force simp: log_payload_def image_iff)
    qed
    from a b c show ?thesis by blast
  qed
  then show "t \<in> set (tasks d')"
    and "filter (\<lambda>l. log_task_id l = task_id t) (task_logs d') =
         filter (\<lambda>l. log_task_id l = task_id t) (task_logs d)"
    and "Broadcast n p \<in> set evs \<Longrightarrow> map_of (n_data n) ''task_id'' \<noteq> Some (PyInt (task_id t))"
    by blast+
qed

lemma iteration_ids:
  "autopilot_iteration ns cfg env d = (d', evs) \<Longrightarrow> map task_id (tasks d') = map task_id (tasks d)"
  by (drule iteration_shape) (auto simp: commit_session_def fold_flush_task_ids)




text \<open>
  C5. A pending task whose assignee set is not empty at the start of an iteration is
  left as it is: its row is still in the store (and the rows keep their primary
  keys, so it is the row of its key), no audit log entry is added for it, and no
  notification is broadcast for it. Task identifiers are primary keys.
\<close>

theorem assigned_pending_task_untouched:
  assumes "autopilot_iteration ns cfg env d = (d', evs)"
    and "distinct (map task_id (tasks d))"
    and "t \<in> set (tasks d)" and "task_status t = PENDING" and "assignees t \<noteq> []"
  shows "t \<in> set (tasks d') \<and> map task_id (tasks d') = map task_id (tasks d) \<and>
         filter (\<lambda>l. log_task_id l = task_id t) (task_logs d') =
           filter (\<lambda>l. log_task_id l = task_id t) (task_logs d) \<and>
         (\<forall>n p. Broadcast n p \<in> set evs \<longrightarrow>
            map_of (n_data n) ''task_id'' \<noteq> Some (PyInt (task_id t)))"
  using untouched_core [OF assms(1,2,3,5)] iteration_ids [OF assms(1)] by blast

theorem assigned_pending_task_untouched_witness:
  "distinct (map task_id (tasks ex_db_mixed)) \<and>
   ex_task\<lparr>task_id := 11, assignees := [2]\<rparr> \<in> set (tasks ex_db_mixed) \<and>
   task_status (ex_task\<lparr>task_id := 11, assignees := [2]\<rparr>) = PENDING \<and>
   assignees (ex_task\<lparr>task_id := 11, assignees := [2]\<rparr>) \<noteq> [] \<and>
   tasks (fst (autopilot_iteration autopilot_globals ex_config ex_env ex_db_mixed)) =
     [ex_task\<lparr>assignees := [1]\<rparr>, ex_task\<lparr>task_id := 11, assignees := [2]\<rparr>] \<and>
   ex_task\<lparr>task_id := 11, assignees := [2]\<rparr> \<in>
     set (tasks (fst (autopilot_iteration autopilot_globals ex_config ex_env ex_db_mixed))) \<and>
   task_logs (fst (autopilot_iteration autopilot_globals ex_config ex_env ex_db_mixed)) = [ex_log] \<and>
   log_task_id ex_log = 10"
proof -
  have h: "distinct (map task_id (tasks ex_db_mixed))"
    "ex_task\<lparr>task_id := 11, assignees := [2]\<rparr> \<in> set (tasks ex_db_mixed)"
    "task_status (ex_task\<lparr>task_id := 11, assignees := [2]\<rparr>) = PENDING"
    "assignees (ex_task\<lparr>task_id := 11, assignees := [2]\<rparr>) \<noteq> []"
    by (simp_all add: ex_db_mixed_def ex_db_def ex_task_def)
  have t: "tasks (fst (autopilot_iteration autopilot_globals ex_config ex_env ex_db_mixed)) =
     [ex_task\<lparr>assignees := [1]\<rparr>, ex_task\<lparr>task_id := 11, assignees := [2]\<rparr>]"
    "task_logs (fst (autopilot_iteration autopilot_globals ex_config ex_env ex_db_mixed)) = [ex_log]"
    "log_task_id ex_log = 10"
    by (simp_all add: ex_run_mixed ex_log_def)
  from assigned_pending_task_untouched [OF ex_run_mixed h]
  have "ex_task\<lparr>task_id := 11, assignees := [2]\<rparr> \<in>
     set (tasks (fst (autopilot_iteration autopilot_globals ex_config ex_env ex_db_mixed)))"
    by (simp add: ex_run_mixed)
  with h t show ?thesis by blast
qed

subsection \<open>\<open>isoformat\<close> gives an ISO-8601 string\<close>

lemma digits_table: "list_all (\<lambda>j. is_digit (''0123456789'' ! j)) [0..<10]"
  by code_simp

lemma is_digit_digit_char: "is_digit (digit_char k)"
proof -
  have "k mod 10 \<in> set [0..<10]" by simp
  with digits_table show ?thesis
    unfolding digit_char_def list_all_iff by blast
qed

lemma str_nat_digits: "list_all is_digit (str_nat n)"
  by (induction n rule: str_nat.induct) (subst str_nat.simps, simp add: is_digit_digit_char)

lemma str_nat_length: "0 < w \<Longrightarrow> n < 10 ^ w \<Longrightarrow> length (str_nat n) \<le> w"
proof (induction n arbitrary: w rule: str_nat.induct)
  case (1 n)
  show ?case
  proof (cases "n < 10")
    case True
    then show ?thesis using "1.prems" by (subst str_nat.simps) simp
  next
    case False
    with "1.prems" have w: "1 < w" by (cases "w = 1") auto
    then obtain v where v: "w = Suc v" "0 < v" by (cases w) auto
    with "1.prems" have "n div 10 < 10 ^ v" by (simp add: less_mult_imp_div_less mult.commute)
    from "1.IH" [OF False v(2) this] show ?thesis using False v
      by (subst str_nat.simps) simp
  qed
qed

lemma fmt_0d_length: "0 < w \<Longrightarrow> n < 10 ^ w \<Longrightarrow> length (fmt_0d w n) = w"
  using str_nat_length [of w n] by (simp add: fmt_0d_def)

lemma fmt_0d_digits: "list_all is_digit (fmt_0d w n)"
proof -
  have "is_digit CHR ''0''" by (simp add: is_digit_def)
  then show ?thesis using str_nat_digits [of n] by (auto simp: fmt_0d_def list_all_iff)
qed

lemma fmt_0d_2:
  assumes "n < 100"
  obtains a b where "fmt_0d 2 n = [a, b]" "is_digit a" "is_digit b"
proof -
  have "length (fmt_0d 2 n) = 2" using assms by (intro fmt_0d_length) auto
  then obtain a b where ab: "fmt_0d 2 n = [a, b]"
    by (auto simp: numeral_eq_Suc length_Suc_conv)
  with fmt_0d_digits [of 2 n] have "is_digit a" "is_digit b" by auto
  with ab that show thesis by blast
qed

lemma fmt_0d_4:
  assumes "n < 10000"
  obtains a b c e where "fmt_0d 4 n = [a, b, c, e]" "is_digit a" "is_digit b" "is_digit c" "is_digit e"
proof -
  have "length (fmt_0d 4 n) = 4" using assms by (intro fmt_0d_length) auto
  then obtain a b c e where ab: "fmt_0d 4 n = [a, b, c, e]"
    by (auto simp: numeral_eq_Suc length_Suc_conv)
  with fmt_0d_digits [of 4 n] have "is_digit a" "is_digit b" "is_digit c" "is_digit e" by auto
  with ab that show thesis by blast
qed

lemma fmt_0d_6:
  assumes "n < 1000000"
  shows "length (fmt_0d 6 n) = 6"
  using assms by (intro fmt_0d_length) auto

lemma isoformat_iso8601:
  assumes "valid_datetime t"
  shows "is_iso8601 (isoformat t)"
proof -
  from assms have b: "dt_year t < 10000" "dt_month t < 100" "dt_day t < 100" "dt_hour t < 100"
    "dt_minute t < 100" "dt_second t < 100" "dt_microsecond t < 1000000"
    by (simp_all add: valid_datetime_def)
  obtain y1 y2 y3 y4 where y: "fmt_0d 4 (dt_year t) = [y1, y2, y3, y4]"
    "is_digit y1" "is_digit y2" "is_digit y3" "is_digit y4"
    using b(1) by (rule fmt_0d_4)
  obtain m1 m2 where m: "fmt_0d 2 (dt_month t) = [m1, m2]" "is_digit m1" "is_digit m2"
    using b(2) by (rule fmt_0d_2)
  obtain d1 d2 where d: "fmt_0d 2 (dt_day t) = [d1, d2]" "is_digit d1" "is_digit d2"
    using b(3) by (rule fmt_0d_2)
  obtain h1 h2 where h: "fmt_0d 2 (dt_hour t) = [h1, h2]" "is_digit h1" "is_digit h2"
    using b(4) by (rule fmt_0d_2)
  obtain i1 i2 where i: "fmt_0d 2 (dt_minute t) = [i1, i2]" "is_digit i1" "is_digit i2"
    using b(5) by (rule fmt_0d_2)
  obtain s1 s2 where s: "fmt_0d 2 (dt_second t) = [s1, s2]" "is_digit s1" "is_digit s2"
    using b(6) by (rule fmt_0d_2)
  have f: "length (fmt_0d 6 (dt_microsecond t)) = 6"
    using b(7) by (rule fmt_0d_6)
  show ?thesis
    using y m d h i s f fmt_0d_digits [of 6 "dt_microsecond t"]
    by (simp add: isoformat_def is_iso8601_def digits_at_def)
qed

subsection \<open>Commit and broadcast\<close>

lemma commit_session_rows:
  assumes "(task, msg) \<in> set processed"
    and "task_id task \<in> task_id ` set rows"
  shows "\<exists>r \<in> set (fold flush_task (map fst processed) rows).
           task_id r = task_id task \<and> r \<in> fst ` set processed"
proof -
  from assms(2) have "task_id task \<in> set (map task_id (fold flush_task (map fst processed) rows))"
    by (simp add: fold_flush_task_ids)
  then obtain r where r: "r \<in> set (fold flush_task (map fst processed) rows)" "task_id r = task_id task"
    by auto
  from fold_flush_task_set [OF r(1)] r(2) assms(1) have "r \<in> fst ` set processed"
    by (force simp: image_iff)
  with r show ?thesis by blast
qed

text \<open>
  What lines 76-91 do in a module namespace that binds \<open>datetime\<close>, which the
  namespace of routers/autopilot.py does not: every call of \<open>broadcast_to_project\<close> is
  preceded by the commit that returned with the store the iteration leaves, and in
  that store the task the notification names is assigned to the manager and the audit
  log entry with the notification's message is recorded.
\<close>

lemma commit_precedes_broadcast:
  assumes "autopilot_iteration ns cfg env d = (d', evs)"
    and "evs = pre @ Broadcast n p # post"
  shows "Commit d' \<in> set pre \<and>
         (\<exists>mid t. manager_id cfg = Some mid \<and> t \<in> set (tasks d') \<and>
            map_of (n_data n) ''task_id'' = Some (PyInt (task_id t)) \<and> mid \<in> set (assignees t)) \<and>
         (\<exists>l. l \<in> set (task_logs d') \<and>
            map_of (n_data n) ''task_id'' = Some (PyInt (log_task_id l)) \<and>
            map_of (n_data n) ''message'' = Some (PyStr (message l)))"
proof -
  have mem: "Broadcast n p \<in> set evs" using assms(2) by simp
  from iteration_shape [OF assms(1)] mem obtain mid m logs processed bevs tl r where
    sh: "manager_id cfg = Some mid" "select_entity d mid = [m]"
      "assign_loop m (filter (\<lambda>t. task_status t = PENDING) (tasks d)) = (logs, processed)"
      "d' = commit_session d processed logs"
      "broadcast_loop ns env 0 processed = (r, bevs)"
      "evs = Lookup mid # Scan # Commit d' # Print_assigned (length processed) (entity_name m) # bevs @ tl"
      "\<forall>e \<in> set tl. \<not> is_broadcast e"
    by fastforce
  note pr = processed_ids [OF sh(3)]
  have mid: "entity_id m = mid"
  proof -
    have "m \<in> set (select_entity d mid)" using sh(2) by simp
    then show ?thesis by (simp add: select_entity_def)
  qed
  have c1: "Commit d' \<in> set pre"
    using assms(2) sh(6) by (auto simp: Cons_eq_append_conv)
  from mem sh(6,7) have "Broadcast n p \<in> set bevs" by auto
  from broadcast_loop_events [OF sh(5) this] obtain task msg where
    tm: "(task, msg) \<in> set processed" "n_data n = log_payload task msg (isoformat (utcnow env))"
    by (auto simp: create_notification_def)
  have "task_id task \<in> task_id ` set (tasks d)"
    using tm(1) unfolding pr(1) by auto
  from commit_session_rows [OF tm(1) this] obtain r0 where
    r0: "r0 \<in> set (tasks d')" "task_id r0 = task_id task" "r0 \<in> fst ` set processed"
    by (auto simp: sh(4) commit_session_def)
  from r0(3) have "assignees r0 = [mid]" unfolding pr(1) using mid by auto
  with r0 tm(2) sh(1) have c2: "\<exists>mid t. manager_id cfg = Some mid \<and> t \<in> set (tasks d') \<and>
            map_of (n_data n) ''task_id'' = Some (PyInt (task_id t)) \<and> mid \<in> set (assignees t)"
    by (auto simp: log_payload_def)
  have "action_log task msg \<in> set (task_logs d')"
    using tm(1) by (force simp: sh(4) commit_session_def pr(2))
  then have c3: "\<exists>l. l \<in> set (task_logs d') \<and>
            map_of (n_data n) ''task_id'' = Some (PyInt (log_task_id l)) \<and>
            map_of (n_data n) ''message'' = Some (PyStr (message l))"
    using tm(2) by (auto simp: log_payload_def action_log_def intro!: exI[of _ "action_log task msg"])
  from c1 c2 c3 show ?thesis by blast
qed

lemma commit_precedes_broadcast_example:
  "autopilot_iteration (''datetime'' # autopilot_globals) ex_config ex_env ex_db =
     (ex_db_assigned,
      [Lookup 1, Scan, Commit ex_db_assigned, Print_assigned 1 ''Alice''] @
        Broadcast ex_notification 7 # [Sleep 5]) \<and>
   Commit ex_db_assigned \<in> set [Lookup 1, Scan, Commit ex_db_assigned, Print_assigned 1 ''Alice''] \<and>
   (\<exists>mid t. manager_id ex_config = Some mid \<and> t \<in> set (tasks ex_db_assigned) \<and>
      map_of (n_data ex_notification) ''task_id'' = Some (PyInt (task_id t)) \<and>
      mid \<in> set (assignees t)) \<and>
   (\<exists>l. l \<in> set (task_logs ex_db_assigned) \<and>
      map_of (n_data ex_notification) ''task_id'' = Some (PyInt (log_task_id l)) \<and>
      map_of (n_data ex_notification) ''message'' = Some (PyStr (message l)))"
proof -
  have r: "autopilot_iteration (''datetime'' # autopilot_globals) ex_config ex_env ex_db =
     (ex_db_assigned,
      [Lookup 1, Scan, Commit ex_db_assigned, Print_assigned 1 ''Alice''] @
        Broadcast ex_notification 7 # [Sleep 5])"
    using ex_run by simp
  from commit_precedes_broadcast [OF r refl] r show ?thesis by blast
qed

text \<open>
  In such a namespace a notification that is broadcast has the type \<open>task_update\<close>
  and a payload with exactly the fields \<open>task_id\<close> (the identifier of a task that was
  pending and unassigned), \<open>type\<close> equal to \<open>log\<close>, \<open>message\<close> (the message of an audit
  log entry of that task in the store), \<open>log_type\<close> and \<open>timestamp\<close>, an ISO-8601
  string; it is addressed to the task's project.
\<close>

lemma broadcast_notification_shape:
  assumes "autopilot_iteration ns cfg env d = (d', evs)"
    and "Broadcast n p \<in> set evs"
    and "valid_datetime (utcnow env)"
  shows "n_type n = ''task_update'' \<and>
         map fst (n_data n) = [''task_id'', ''type'', ''message'', ''log_type'', ''timestamp''] \<and>
         n_project_id n = Some p \<and>
         (\<exists>t l stamp. t \<in> set (tasks d) \<and> task_status t = PENDING \<and> assignees t = [] \<and>
            task_project_id t = p \<and>
            l \<in> set (task_logs d') \<and> log_task_id l = task_id t \<and>
            is_iso8601 stamp \<and>
            n_data n = [(''task_id'', PyInt (task_id t)), (''type'', PyStr ''log''),
                        (''message'', PyStr (message l)), (''log_type'', PyStr (log_type l)),
                        (''timestamp'', PyStr stamp)])"
proof -
  from iteration_shape [OF assms(1)] assms(2) obtain mid m logs processed bevs tl r where
    sh: "manager_id cfg = Some mid" "select_entity d mid = [m]"
      "assign_loop m (filter (\<lambda>t. task_status t = PENDING) (tasks d)) = (logs, processed)"
      "d' = commit_session d processed logs"
      "broadcast_loop ns env 0 processed = (r, bevs)"
      "evs = Lookup mid # Scan # Commit d' # Print_assigned (length processed) (entity_name m) # bevs @ tl"
      "\<forall>e \<in> set tl. \<not> is_broadcast e"
    by fastforce
  note pr = processed_ids [OF sh(3)]
  from assms(2) sh(6,7) have "Broadcast n p \<in> set bevs" by auto
  from broadcast_loop_events [OF sh(5) this] obtain task msg where
    tm: "(task, msg) \<in> set processed"
      "n = create_notification (utcnow env) ''task_update''
             (log_payload task msg (isoformat (utcnow env))) (Some (task_project_id task))"
      "p = task_project_id task"
    by auto
  from tm(1) obtain t where t: "t \<in> set (tasks d)" "task_status t = PENDING" "assignees t = []"
    "task = t\<lparr>assignees := [entity_id m]\<rparr>" "msg = log_message m task"
    unfolding pr(1) by auto
  have l: "action_log task msg \<in> set (task_logs d')"
    using tm(1) by (force simp: sh(4) commit_session_def pr(2))
  have iso: "is_iso8601 (isoformat (utcnow env))" by (rule isoformat_iso8601 [OF assms(3)])
  have "\<exists>t l stamp. t \<in> set (tasks d) \<and> task_status t = PENDING \<and> assignees t = [] \<and>
            task_project_id t = p \<and>
            l \<in> set (task_logs d') \<and> log_task_id l = task_id t \<and>
            is_iso8601 stamp \<and>
            n_data n = [(''task_id'', PyInt (task_id t)), (''type'', PyStr ''log''),
                        (''message'', PyStr (message l)), (''log_type'', PyStr (log_type l)),
                        (''timestamp'', PyStr stamp)]"
    apply (rule exI[of _ t], rule exI[of _ "action_log task msg"], rule exI[of _ "isoformat (utcnow env)"])
    using t l iso tm(2,3) by (simp add: create_notification_def log_payload_def action_log_def)
  then show ?thesis
    using tm(2,3) by (simp add: create_notification_def log_payload_def)
qed

lemma broadcast_notification_shape_example:
  "Broadcast ex_notification 7 \<in>
     set (snd (autopilot_iteration (''datetime'' # autopilot_globals) ex_config ex_env ex_db)) \<and>
   valid_datetime (utcnow ex_env) \<and>
   n_type ex_notification = ''task_update'' \<and>
   map fst (n_data ex_notification) = [''task_id'', ''type'', ''message'', ''log_type'', ''timestamp''] \<and>
   n_project_id ex_notification = Some 7 \<and>
   is_iso8601 ''2024-01-02T03:04:05.000678''"
proof -
  have m: "Broadcast ex_notification 7 \<in>
     set (snd (autopilot_iteration (''datetime'' # autopilot_globals) ex_config ex_env ex_db))"
    by (simp add: ex_run)
  have v: "valid_datetime (utcnow ex_env)" by (simp add: valid_datetime_def ex_env_def ex_now_def)
  have m2: "Broadcast ex_notification 7 \<in> set [Lookup 1, Scan, Commit ex_db_assigned,
       Print_assigned 1 ''Alice'', Broadcast ex_notification 7, Sleep 5]" by simp
  note th = broadcast_notification_shape [OF ex_run m2 v]
  from th have k: "n_type ex_notification = ''task_update''"
    "map fst (n_data ex_notification) = [''task_id'', ''type'', ''message'', ''log_type'', ''timestamp'']"
    "n_project_id ex_notification = Some 7"
    by blast+
  have i: "is_iso8601 ''2024-01-02T03:04:05.000678''" by code_simp
  from m v k i show ?thesis by blast
qed

subsection \<open>Events of the blocks of an iteration\<close>

lemma broadcast_loop_only_broadcasts:
  "broadcast_loop ns env k ps = (r, evs) \<Longrightarrow> e \<in> set evs \<Longrightarrow> is_broadcast e"
  by (drule (1) broadcast_loop_events) auto

lemma broadcast_loop_no_sleep:
  assumes "broadcast_loop ns env k ps = (r, evs)"
  shows "filter is_sleep evs = []" and "Lookup mid \<notin> set evs" and "Scan \<notin> set evs"
proof -
  have "\<forall>e \<in> set evs. \<exists>n p. e = Broadcast n p"
    using broadcast_loop_events [OF assms] by blast
  then show "filter is_sleep evs = []" and "Lookup mid \<notin> set evs" and "Scan \<notin> set evs"
    by (auto simp: filter_empty_conv)
qed

lemma try_body_idle:
  "\<not> enabled cfg \<or> manager_id cfg = None \<or> manager_id cfg = Some 0 \<Longrightarrow>
     try_body ns cfg env d = (Inr (), d, [Sleep 5])"
  by (auto simp: try_body_def)

lemma try_body_active:
  "enabled cfg \<Longrightarrow> manager_id cfg = Some mid \<Longrightarrow> mid \<noteq> 0 \<Longrightarrow>
     try_body ns cfg env d =
       (case session_block ns env d mid of
          (Inl e, d', evs) \<Rightarrow> (Inl e, d', evs)
        | (Inr u, d', evs) \<Rightarrow> (Inr u, d', evs @ [Sleep 5]))"
  by (simp add: try_body_def)

lemma scan_and_assign_events:
  assumes "scan_and_assign ns env d m = (r, d', evs)"
  shows "\<exists>rest. evs = Scan # rest \<and> filter is_sleep rest = [] \<and> Scan \<notin> set rest \<and>
           (\<forall>mid. Lookup mid \<notin> set rest)"
proof (cases "scan_fault env")
  case (Some e)
  with assms show ?thesis by (auto simp: scan_and_assign_def)
next
  case None
  obtain logs processed where al:
    "assign_loop m (filter (\<lambda>t. task_status t = PENDING) (tasks d)) = (logs, processed)"
    by (cases "assign_loop m (filter (\<lambda>t. task_status t = PENDING) (tasks d))")
  obtain rb bevs where bl: "broadcast_loop ns env 0 processed = (rb, bevs)"
    by (cases "broadcast_loop ns env 0 processed")
  from broadcast_loop_no_sleep [OF bl] assms None al bl show ?thesis
    by (auto simp: scan_and_assign_def commit_and_broadcast_def Let_def split: if_splits option.splits)
qed

lemma session_block_events:
  assumes "session_block ns env d mid = (r, d', evs)"
  shows "\<exists>rest. evs = Lookup mid # rest \<and> filter is_sleep rest = [] \<and>
           (\<forall>mid'. Lookup mid' \<notin> set rest) \<and>
           (Scan \<in> set rest \<longleftrightarrow> lookup_fault env = None \<and> (\<exists>m. select_entity d mid = [m]))"
proof (cases "lookup_fault env")
  case (Some e)
  with assms show ?thesis by (auto simp: session_block_def)
next
  case None
  show ?thesis
  proof (cases "scalar_one_or_none (select_entity d mid)")
    case (Inl e)
    then have "\<not> (\<exists>m. select_entity d mid = [m])"
      by (auto simp: scalar_one_or_none_Some [symmetric])
    with assms None Inl show ?thesis by (auto simp: session_block_def)
  next
    case (Inr o1)
    show ?thesis
    proof (cases o1)
      case None2: None
      with Inr have "select_entity d mid = []" by (simp add: scalar_one_or_none_None)
      with assms None Inr None2 show ?thesis by (auto simp: session_block_def)
    next
      case (Some m)
      with Inr have sel: "select_entity d mid = [m]" by (simp add: scalar_one_or_none_Some)
      obtain r1 d1 evs1 where sa: "scan_and_assign ns env d m = (r1, d1, evs1)"
        by (cases "scan_and_assign ns env d m")
      from scan_and_assign_events [OF sa] assms None Inr Some sa sel show ?thesis
        by (auto simp: session_block_def)
    qed
  qed
qed

lemma try_body_sleeps:
  assumes "try_body ns cfg env d = (r, d', evs)"
  shows "filter is_sleep evs = (case r of Inl e \<Rightarrow> [] | Inr u \<Rightarrow> [Sleep 5])"
    and "r = Inr () \<Longrightarrow> evs \<noteq> [] \<and> last evs = Sleep 5"
proof -
  have "filter is_sleep evs = (case r of Inl e \<Rightarrow> [] | Inr u \<Rightarrow> [Sleep 5]) \<and>
        (r = Inr () \<longrightarrow> evs \<noteq> [] \<and> last evs = Sleep 5)"
  proof (cases "enabled cfg \<and> manager_id cfg \<noteq> None \<and> manager_id cfg \<noteq> Some 0")
    case False
    then have "try_body ns cfg env d = (Inr (), d, [Sleep 5])" by (intro try_body_idle) auto
    with assms show ?thesis by auto
  next
    case True
    then obtain mid where mid: "enabled cfg" "manager_id cfg = Some mid" "mid \<noteq> 0" by auto
    obtain r1 d1 evs1 where sb: "session_block ns env d mid = (r1, d1, evs1)"
      by (cases "session_block ns env d mid")
    from session_block_events [OF sb] assms sb show ?thesis
      unfolding try_body_active [OF mid] by (cases r1) auto
  qed
  then show "filter is_sleep evs = (case r of Inl e \<Rightarrow> [] | Inr u \<Rightarrow> [Sleep 5])"
    and "r = Inr () \<Longrightarrow> evs \<noteq> [] \<and> last evs = Sleep 5" by blast+
qed

lemma iteration_one_sleep:
  "length (filter is_sleep (snd (autopilot_iteration ns cfg env d))) = 1"
  and iteration_last_sleep: "last (snd (autopilot_iteration ns cfg env d)) = Sleep 5"
proof -
  obtain r d' evs where tb: "try_body ns cfg env d = (r, d', evs)"
    by (cases "try_body ns cfg env d")
  from try_body_sleeps [OF tb] tb
  show "length (filter is_sleep (snd (autopilot_iteration ns cfg env d))) = 1"
    and "last (snd (autopilot_iteration ns cfg env d)) = Sleep 5"
    by (cases r; auto simp: autopilot_iteration_def)+
qed

lemma run_autopilot_loop_sleeps:
  "length (filter is_sleep (snd (run_autopilot_loop ns script d))) = length script"
proof (induction script arbitrary: d)
  case Nil
  then show ?case by simp
next
  case (Cons a script)
  obtain cfg env where a: "a = (cfg, env)" by (cases a)
  show ?case using Cons.IH iteration_one_sleep [of ns cfg env d]
    by (simp add: a split_beta Let_def)
qed

lemma run_autopilot_loop_append:
  "run_autopilot_loop ns (s1 @ s2) d =
     (fst (run_autopilot_loop ns s2 (fst (run_autopilot_loop ns s1 d))),
      snd (run_autopilot_loop ns s1 d) @ snd (run_autopilot_loop ns s2 (fst (run_autopilot_loop ns s1 d))))"
proof (induction s1 arbitrary: d)
  case Nil
  then show ?case by simp
next
  case (Cons a s1)
  obtain cfg env where a: "a = (cfg, env)" by (cases a)
  show ?case by (simp add: a split_beta Let_def Cons.IH)
qed

text \<open>
  C3. Every exception raised in the body of an iteration is caught in the loop: the
  pass prints it and sleeps the same five seconds, every pass ends with that sleep,
  a run of the loop over a script makes as many sleeps as the script has passes,
  and the passes after any prefix of the script run as the loop started on the store
  the prefix left would run them. The loop function has no exceptional result.
\<close>

theorem autopilot_loop_survives_exceptions:
  "(fst (try_body ns cfg env d) = Inl e \<longrightarrow>
      snd (autopilot_iteration ns cfg env d) =
        snd (snd (try_body ns cfg env d)) @ [Print_error e, Sleep 5]) \<and>
   last (snd (autopilot_iteration ns cfg env d)) = Sleep 5 \<and>
   length (filter is_sleep (snd (run_autopilot_loop ns script d))) = length script \<and>
   run_autopilot_loop ns (s1 @ s2) d =
     (fst (run_autopilot_loop ns s2 (fst (run_autopilot_loop ns s1 d))),
      snd (run_autopilot_loop ns s1 d) @
        snd (run_autopilot_loop ns s2 (fst (run_autopilot_loop ns s1 d))))"
proof -
  have "fst (try_body ns cfg env d) = Inl e \<longrightarrow>
      snd (autopilot_iteration ns cfg env d) =
        snd (snd (try_body ns cfg env d)) @ [Print_error e, Sleep 5]"
    by (cases "try_body ns cfg env d") (auto simp: autopilot_iteration_def)
  then show ?thesis
    using iteration_last_sleep run_autopilot_loop_sleeps run_autopilot_loop_append by blast
qed

theorem autopilot_loop_survives_exceptions_witness:
  "fst (try_body autopilot_globals ex_config ex_env_scan_fails ex_db) =
     Inl (PyException ''storage unavailable'') \<and>
   snd (autopilot_iteration autopilot_globals ex_config ex_env_scan_fails ex_db) =
     [Lookup 1, Scan, Print_error (PyException ''storage unavailable''), Sleep 5] \<and>
   run_autopilot_loop autopilot_globals [(ex_config, ex_env_scan_fails), (ex_config, ex_env)] ex_db =
     (ex_db_assigned,
      [Lookup 1, Scan, Print_error (PyException ''storage unavailable''), Sleep 5,
       Lookup 1, Scan, Commit ex_db_assigned, Print_assigned 1 ''Alice'',
       Print_error (NameError ''datetime''), Sleep 5])"
  using autopilot_loop_survives_exceptions
    [of autopilot_globals ex_config ex_env_scan_fails ex_db "PyException ''storage unavailable''"
        "[]" "[]" "[]"]
  by (simp add: autopilot_defs ex_defs autopilot_globals_def Let_def)

text \<open>
  C2, as amended. With the flag off, with no manager identifier, or with the
  identifier 0, an iteration only sleeps; with a manager identifier that no entity
  has, it issues the lookup and sleeps; in both cases the store is unchanged, nothing is
  committed and nothing is broadcast. The manager lookup is issued exactly when the
  flag is on and the identifier is set and not 0; the task scan is issued exactly
  when, moreover, the lookup returns and finds the one entity.
\<close>

theorem autopilot_fast_path:
  "(\<not> enabled cfg \<or> manager_id cfg = None \<or> manager_id cfg = Some 0 \<longrightarrow>
      autopilot_iteration ns cfg env d = (d, [Sleep 5])) \<and>
   (enabled cfg \<and> manager_id cfg = Some mid \<and> mid \<noteq> 0 \<and> lookup_fault env = None \<and>
    select_entity d mid = [] \<longrightarrow>
      autopilot_iteration ns cfg env d = (d, [Lookup mid, Sleep 5])) \<and>
   (Lookup mid \<in> set (snd (autopilot_iteration ns cfg env d)) \<longleftrightarrow>
      enabled cfg \<and> manager_id cfg = Some mid \<and> mid \<noteq> 0) \<and>
   (Scan \<in> set (snd (autopilot_iteration ns cfg env d)) \<longleftrightarrow>
      enabled cfg \<and> lookup_fault env = None \<and>
      (\<exists>k m. manager_id cfg = Some k \<and> k \<noteq> 0 \<and> select_entity d k = [m]))"
proof -
  have a: "autopilot_iteration ns cfg env d = (d, [Sleep 5])"
    if "\<not> enabled cfg \<or> manager_id cfg = None \<or> manager_id cfg = Some 0"
    using try_body_idle [OF that] by (simp add: autopilot_iteration_def)
  have b: "autopilot_iteration ns cfg env d = (d, [Lookup mid, Sleep 5])"
    if "enabled cfg \<and> manager_id cfg = Some mid \<and> mid \<noteq> 0 \<and> lookup_fault env = None \<and>
        select_entity d mid = []"
    using that by (simp add: autopilot_iteration_def try_body_def session_block_def)
  have c: "(Lookup mid \<in> set (snd (autopilot_iteration ns cfg env d)) \<longleftrightarrow>
      enabled cfg \<and> manager_id cfg = Some mid \<and> mid \<noteq> 0) \<and>
   (Scan \<in> set (snd (autopilot_iteration ns cfg env d)) \<longleftrightarrow>
      enabled cfg \<and> lookup_fault env = None \<and>
      (\<exists>k m. manager_id cfg = Some k \<and> k \<noteq> 0 \<and> select_entity d k = [m]))"
  proof (cases "enabled cfg \<and> manager_id cfg \<noteq> None \<and> manager_id cfg \<noteq> Some 0")
    case False
    then have "\<not> enabled cfg \<or> manager_id cfg = None \<or> manager_id cfg = Some 0" by auto
    from a [OF this] False show ?thesis by auto
  next
    case True
    then obtain k where k: "enabled cfg" "manager_id cfg = Some k" "k \<noteq> 0" by auto
    obtain r1 d1 evs1 where sb: "session_block ns env d k = (r1, d1, evs1)"
      by (cases "session_block ns env d k")
    from session_block_events [OF sb] obtain rest where rest: "evs1 = Lookup k # rest"
      "\<forall>mid'. Lookup mid' \<notin> set rest"
      "Scan \<in> set rest \<longleftrightarrow> lookup_fault env = None \<and> (\<exists>m. select_entity d k = [m])"
      by blast
    have "set (snd (autopilot_iteration ns cfg env d)) \<subseteq> set evs1 \<union> {Sleep 5} \<union> range Print_error"
      and "set evs1 \<subseteq> set (snd (autopilot_iteration ns cfg env d))"
      using sb unfolding autopilot_iteration_def try_body_active [OF k] by (cases r1; auto)+
    with rest k show ?thesis by auto
  qed
  from a b c show ?thesis by blast
qed

theorem autopilot_fast_path_witness:
  "\<not> enabled initial_config \<and>
   autopilot_iteration autopilot_globals initial_config ex_env ex_db = (ex_db, [Sleep 5]) \<and>
   enabled (ex_config\<lparr>manager_id := Some 5\<rparr>) \<and> select_entity ex_db 5 = [] \<and>
   autopilot_iteration autopilot_globals (ex_config\<lparr>manager_id := Some 5\<rparr>) ex_env ex_db =
     (ex_db, [Lookup 5, Sleep 5]) \<and>
   Scan \<in> set (snd (autopilot_iteration autopilot_globals ex_config ex_env ex_db))"
  using autopilot_fast_path [of initial_config autopilot_globals ex_env ex_db 1]
    autopilot_fast_path [of "ex_config\<lparr>manager_id := Some 5\<rparr>" autopilot_globals ex_env ex_db 5]
    autopilot_fast_path [of ex_config autopilot_globals ex_env ex_db 1]
  by (simp add: initial_config_def ex_defs select_entity_def)

text \<open>
  C2, as stated, fails: with the autopilot enabled and \<open>manager_id = 5\<close>, which no
  entity has, the lookup is issued and the task scan is not; with the autopilot
  enabled and \<open>manager_id = 0\<close>, not even the lookup is issued.
\<close>

theorem scan_skipped_counterexample:
  "enabled (ex_config\<lparr>manager_id := Some 5\<rparr>) \<and>
   manager_id (ex_config\<lparr>manager_id := Some 5\<rparr>) = Some 5 \<and>
   autopilot_iteration autopilot_globals (ex_config\<lparr>manager_id := Some 5\<rparr>) ex_env ex_db =
     (ex_db, [Lookup 5, Sleep 5]) \<and>
   Scan \<notin> set (snd (autopilot_iteration autopilot_globals (ex_config\<lparr>manager_id := Some 5\<rparr>) ex_env ex_db)) \<and>
   enabled (ex_config\<lparr>manager_id := Some 0\<rparr>) \<and>
   manager_id (ex_config\<lparr>manager_id := Some 0\<rparr>) = Some 0 \<and>
   autopilot_iteration autopilot_globals (ex_config\<lparr>manager_id := Some 0\<rparr>) ex_env ex_db =
     (ex_db, [Sleep 5])"
  by (simp add: autopilot_defs ex_defs Let_def)

subsection \<open>Assigning twice\<close>

lemma select_after_flush:
  "task_id t = tid \<Longrightarrow>
     filter (\<lambda>r. task_id r = tid) (flush_task t rows) = map (\<lambda>r. t) (filter (\<lambda>r. task_id r = tid) rows)"
  by (induction rows) (auto simp: flush_task_def)

lemma assign_task_twice:
  assumes "assign_task tid eid d = (Inr t1, d1)"
  shows "assign_task tid eid d1 = (Inr t1, d1)"
proof -
  from assms obtain task entity where
    sel: "select_task d tid = [task]" "select_entity d eid = [entity]"
    by (auto simp: assign_task_def scalar_one_or_none_Some split: sum.splits option.splits)
  have tid: "task_id task = tid"
  proof -
    have "task \<in> set (select_task d tid)" using sel(1) by simp
    then show ?thesis by (simp add: select_task_def)
  qed
  have eid: "entity_id entity = eid"
  proof -
    have "entity \<in> set (select_entity d eid)" using sel(2) by simp
    then show ?thesis by (simp add: select_entity_def)
  qed
  show ?thesis
  proof (cases "eid \<in> set (assignees task)")
    case True
    with assms sel eid show ?thesis by (auto simp: assign_task_def)
  next
    case False
    with assms sel eid have r: "t1 = task\<lparr>assignees := assignees task @ [eid]\<rparr>"
      "d1 = d\<lparr>tasks := flush_task t1 (tasks d)\<rparr>"
      by (auto simp: assign_task_def Let_def)
    have "task_id t1 = tid" using r(1) tid by simp
    from select_after_flush [OF this, of "tasks d"] sel(1)
    have "select_task d1 tid = [t1]" by (simp add: select_task_def r(2))
    moreover have "select_entity d1 eid = [entity]" using sel(2) by (simp add: select_entity_def r(2))
    moreover have "eid \<in> set (assignees t1)" using r(1) by simp
    ultimately show ?thesis using eid by (simp add: assign_task_def)
  qed
qed

text \<open>
  C7. Assigning the same entity to the same task a second time returns the same task
  and leaves the store, and so the assignee set, as the first assignment left it; and
  an autopilot iteration over a store in which a task is already assigned to the
  manager keeps the task's row and adds no audit log entry for it.
\<close>

theorem assignment_idempotent:
  "(assign_task tid eid d = (Inr t1, d1) \<longrightarrow> assign_task tid eid d1 = (Inr t1, d1)) \<and>
   (distinct (map task_id (tasks d)) \<and> t \<in> set (tasks d) \<and> manager_id cfg = Some mid \<and>
    mid \<in> set (assignees t) \<longrightarrow>
      t \<in> set (tasks (fst (autopilot_iteration ns cfg env d))) \<and>
      filter (\<lambda>l. log_task_id l = task_id t) (task_logs (fst (autopilot_iteration ns cfg env d))) =
        filter (\<lambda>l. log_task_id l = task_id t) (task_logs d))"
proof -
  have "t \<in> set (tasks (fst (autopilot_iteration ns cfg env d))) \<and>
      filter (\<lambda>l. log_task_id l = task_id t) (task_logs (fst (autopilot_iteration ns cfg env d))) =
        filter (\<lambda>l. log_task_id l = task_id t) (task_logs d)"
    if h: "distinct (map task_id (tasks d))" "t \<in> set (tasks d)" "mid \<in> set (assignees t)"
  proof -
    obtain d' evs where it: "autopilot_iteration ns cfg env d = (d', evs)"
      by (cases "autopilot_iteration ns cfg env d")
    from h(3) have "assignees t \<noteq> []" by auto
    from untouched_core(1,2) [OF it h(1,2) this] it show ?thesis by simp
  qed
  then show ?thesis using assign_task_twice by blast
qed

theorem assignment_idempotent_witness:
  "assign_task 10 1 ex_db = (Inr (ex_task\<lparr>assignees := [1]\<rparr>), ex_db_assigned\<lparr>task_logs := []\<rparr>) \<and>
   assign_task 10 1 (ex_db_assigned\<lparr>task_logs := []\<rparr>) =
     (Inr (ex_task\<lparr>assignees := [1]\<rparr>), ex_db_assigned\<lparr>task_logs := []\<rparr>) \<and>
   distinct (map task_id (tasks ex_db_assigned)) \<and>
   ex_task\<lparr>assignees := [1]\<rparr> \<in> set (tasks ex_db_assigned) \<and>
   manager_id ex_config = Some 1 \<and> 1 \<in> set (assignees (ex_task\<lparr>assignees := [1]\<rparr>)) \<and>
   filter (\<lambda>l. log_task_id l = 10)
     (task_logs (fst (autopilot_iteration autopilot_globals ex_config ex_env ex_db_assigned))) = [ex_log]"
proof -
  have a: "assign_task 10 1 ex_db = (Inr (ex_task\<lparr>assignees := [1]\<rparr>), ex_db_assigned\<lparr>task_logs := []\<rparr>)"
    by (simp add: assign_task_def select_task_def select_entity_def flush_task_def ex_defs Let_def)
  have b: "distinct (map task_id (tasks ex_db_assigned))"
      "ex_task\<lparr>assignees := [1]\<rparr> \<in> set (tasks ex_db_assigned)"
      "manager_id ex_config = Some 1" "1 \<in> set (assignees (ex_task\<lparr>assignees := [1]\<rparr>))"
    by (simp_all add: ex_defs)
  have c: "task_id (ex_task\<lparr>assignees := [1]\<rparr>) = 10"
    "filter (\<lambda>l. log_task_id l = 10) (task_logs ex_db_assigned) = [ex_log]"
    by (simp_all add: ex_defs)
  note th = assignment_idempotent
    [of 10 1 ex_db "ex_task\<lparr>assignees := [1]\<rparr>" "ex_db_assigned\<lparr>task_logs := []\<rparr>"
        "ex_task\<lparr>assignees := [1]\<rparr>" ex_config 1 autopilot_globals ex_env]
  from th a have a2: "assign_task 10 1 (ex_db_assigned\<lparr>task_logs := []\<rparr>) =
     (Inr (ex_task\<lparr>assignees := [1]\<rparr>), ex_db_assigned\<lparr>task_logs := []\<rparr>)"
    by blast
  note th2 = assignment_idempotent
    [of 10 1 ex_db_assigned "ex_task\<lparr>assignees := [1]\<rparr>" "ex_db_assigned"
        "ex_task\<lparr>assignees := [1]\<rparr>" ex_config 1 autopilot_globals ex_env]
  from th2 b have "filter (\<lambda>l. log_task_id l = task_id (ex_task\<lparr>assignees := [1]\<rparr>))
       (task_logs (fst (autopilot_iteration autopilot_globals ex_config ex_env ex_db_assigned))) =
     filter (\<lambda>l. log_task_id l = task_id (ex_task\<lparr>assignees := [1]\<rparr>)) (task_logs ex_db_assigned)"
    by blast
  then have l: "filter (\<lambda>l. log_task_id l = 10)
     (task_logs (fst (autopilot_iteration autopilot_globals ex_config ex_env ex_db_assigned))) = [ex_log]"
    unfolding c by this
  from a a2 b l show ?thesis by blast
qed

subsection \<open>The connection handlers and the registry\<close>

lemma receive_loop_calls:
  "receive_loop ws script = (calls, raised) \<Longrightarrow>
     calls = map (\<lambda>data. Send_personal [(''type'', PyStr ''echo''), (''message'', PyStr data)] ws)
               (received_frames script) \<and>
     (raised \<noteq> None \<longleftrightarrow> loop_ends script)"
proof (induction ws script arbitrary: calls raised rule: receive_loop.induct)
  case (1 websocket)
  then show ?case by simp
next
  case (2 websocket e out script)
  then show ?case by auto
next
  case (3 websocket data out script)
  show ?case
  proof (cases out)
    case None
    obtain c1 r1 where rec: "receive_loop websocket script = (c1, r1)"
      by (cases "receive_loop websocket script")
    from "3.IH" [OF refl None rec] "3.prems" None rec show ?thesis
      by (auto simp: Let_def)
  next
    case (Some e)
    with "3.prems" show ?thesis by (auto simp: Let_def)
  qed
qed

lemma sent_messages_append: "sent_messages (xs @ ys) = sent_messages xs @ sent_messages ys"
  by (induction xs rule: sent_messages.induct) auto

lemma sent_messages_echo:
  "sent_messages (map (\<lambda>data. Send_personal (f data) ws) xs) = map f xs"
  by (induction xs) auto

lemma handler_cases:
  assumes "(case greeting of Some e \<Rightarrow> ([], Some e) | None \<Rightarrow> receive_loop ws script) = (calls, raised)"
  shows "calls = map (\<lambda>data. Send_personal [(''type'', PyStr ''echo''), (''message'', PyStr data)] ws)
               (if greeting = None then received_frames script else [])"
    and "raised \<noteq> None \<longleftrightarrow> greeting \<noteq> None \<or> loop_ends script"
  using assms receive_loop_calls [of ws script calls raised]
  by (auto split: option.splits)

lemma project_handler_result:
  assumes "(case greeting of Some e \<Rightarrow> ([], Some e) | None \<Rightarrow> receive_loop ws script) = (cs, raised)"
  shows "websocket_project_updates ws pid greeting script reg =
     (case raised of
        None \<Rightarrow>
          (connect ws (Project pid) reg,
           Connect ws (Project pid) #
             Send_personal [(''type'', PyStr ''connection''),
                            (''message'', PyStr (''Connected to project '' @ str_int pid))] ws # cs,
           False)
      | Some e \<Rightarrow>
          (disconnect ws (Project pid) (connect ws (Project pid) reg),
           Connect ws (Project pid) #
             Send_personal [(''type'', PyStr ''connection''),
                            (''message'', PyStr (''Connected to project '' @ str_int pid))] ws # cs @
             (if e = WebSocketDisconnect then [] else [Print_ws_error e]) @
             [Disconnect ws (Project pid)],
           True))"
proof (cases raised)
  case None
  with assms show ?thesis by (simp add: websocket_project_updates_def Let_def)
next
  case (Some e)
  with assms show ?thesis by (cases e) (simp_all add: websocket_project_updates_def Let_def)
qed

lemma global_handler_result:
  assumes "(case greeting of Some e \<Rightarrow> ([], Some e) | None \<Rightarrow> receive_loop ws script) = (cs, raised)"
  shows "websocket_global_updates ws greeting script reg =
     (case raised of
        None \<Rightarrow>
          (connect ws Global reg,
           Connect ws Global #
             Send_personal [(''type'', PyStr ''connection''),
                            (''message'', PyStr ''Connected to global updates'')] ws # cs,
           False)
      | Some e \<Rightarrow>
          (disconnect ws Global (connect ws Global reg),
           Connect ws Global #
             Send_personal [(''type'', PyStr ''connection''),
                            (''message'', PyStr ''Connected to global updates'')] ws # cs @
             (if e = WebSocketDisconnect then [] else [Print_ws_error e]) @
             [Disconnect ws Global],
           True))"
proof (cases raised)
  case None
  with assms show ?thesis by (simp add: websocket_global_updates_def Let_def)
next
  case (Some e)
  with assms show ?thesis by (cases e) (simp_all add: websocket_global_updates_def Let_def)
qed

lemma unregistered: "ws \<notin> disconnect ws s (connect ws s reg) s"
  by (simp add: disconnect_def connect_def)

lemma handler_summary:
  assumes res: "(reg', calls, returned) =
     (case raised of
        None \<Rightarrow> (connect ws s reg, Connect ws s # Send_personal hello ws # cs, False)
      | Some e \<Rightarrow>
          (disconnect ws s (connect ws s reg),
           Connect ws s # Send_personal hello ws # cs @
             (if e = WebSocketDisconnect then [] else [Print_ws_error e]) @ [Disconnect ws s],
           True))"
    and cs: "cs = map (\<lambda>data. Send_personal [(''type'', PyStr ''echo''), (''message'', PyStr data)] ws) frames"
    and r: "raised \<noteq> None \<longleftrightarrow> ended"
  shows "(\<exists>rest. calls = Connect ws s # Send_personal hello ws # rest) \<and>
      sent_messages calls =
        hello # map (\<lambda>data. [(''type'', PyStr ''echo''), (''message'', PyStr data)]) frames \<and>
      (returned \<longleftrightarrow> ended) \<and>
      (if returned
       then reg' = disconnect ws s (connect ws s reg) \<and> ws \<notin> reg' s \<and> last calls = Disconnect ws s
       else reg' = connect ws s reg)"
proof (cases raised)
  case None
  with res r have "reg' = connect ws s reg" "calls = Connect ws s # Send_personal hello ws # cs"
    "\<not> returned" "\<not> ended" by simp_all
  then show ?thesis by (simp add: cs sent_messages_echo)
next
  case (Some e)
  with res r have v: "reg' = disconnect ws s (connect ws s reg)"
    "calls = Connect ws s # Send_personal hello ws # cs @
             (if e = WebSocketDisconnect then [] else [Print_ws_error e]) @ [Disconnect ws s]"
    "returned" "ended" by simp_all
  have "sent_messages calls =
        hello # map (\<lambda>data. [(''type'', PyStr ''echo''), (''message'', PyStr data)]) frames"
    by (simp add: v(2) cs sent_messages_append sent_messages_echo)
  moreover have "last calls = Disconnect ws s" by (simp add: v(2))
  ultimately show ?thesis using v unregistered [of ws s reg] by simp
qed

text \<open>
  C8. A connection handler, project-scoped or global, first registers the connection
  and sends one message of type \<open>connection\<close> whose text names the scope; then, for
  every text frame \<open>receive_text\<close> returns, whatever its content, it sends one message
  of type \<open>echo\<close> whose \<open>message\<close> is the frame as received, and nothing else; and it
  returns exactly when the transport closes or a receive or a send raises, and then
  the connection has been removed from its scope in the registry, by the handler's
  last call.
\<close>

theorem websocket_handlers_greet_echo_unregister:
  "(websocket_project_updates ws pid greeting script reg = (reg', calls, returned) \<longrightarrow>
      (\<exists>rest. calls = Connect ws (Project pid) #
                 Send_personal [(''type'', PyStr ''connection''),
                                (''message'', PyStr (''Connected to project '' @ str_int pid))] ws # rest) \<and>
      sent_messages calls =
        [(''type'', PyStr ''connection''), (''message'', PyStr (''Connected to project '' @ str_int pid))] #
        map (\<lambda>data. [(''type'', PyStr ''echo''), (''message'', PyStr data)])
          (if greeting = None then received_frames script else []) \<and>
      (returned \<longleftrightarrow> greeting \<noteq> None \<or> loop_ends script) \<and>
      (if returned
       then reg' = disconnect ws (Project pid) (connect ws (Project pid) reg) \<and>
            ws \<notin> reg' (Project pid) \<and> last calls = Disconnect ws (Project pid)
       else reg' = connect ws (Project pid) reg)) \<and>
   (websocket_global_updates ws greeting script reg = (reg', calls, returned) \<longrightarrow>
      (\<exists>rest. calls = Connect ws Global #
                 Send_personal [(''type'', PyStr ''connection''),
                                (''message'', PyStr ''Connected to global updates'')] ws # rest) \<and>
      sent_messages calls =
        [(''type'', PyStr ''connection''), (''message'', PyStr ''Connected to global updates'')] #
        map (\<lambda>data. [(''type'', PyStr ''echo''), (''message'', PyStr data)])
          (if greeting = None then received_frames script else []) \<and>
      (returned \<longleftrightarrow> greeting \<noteq> None \<or> loop_ends script) \<and>
      (if returned
       then reg' = disconnect ws Global (connect ws Global reg) \<and>
            ws \<notin> reg' Global \<and> last calls = Disconnect ws Global
       else reg' = connect ws Global reg))"
proof -
  obtain cs raised where cr:
    "(case greeting of Some e \<Rightarrow> ([], Some e) | None \<Rightarrow> receive_loop ws script) = (cs, raised)"
    by (cases "case greeting of Some e \<Rightarrow> ([], Some e) | None \<Rightarrow> receive_loop ws script")
  note hc = handler_cases [OF cr]
  show ?thesis
  proof (intro conjI impI)
    assume a: "websocket_project_updates ws pid greeting script reg = (reg', calls, returned)"
    from handler_summary [OF a [symmetric, unfolded project_handler_result [OF cr]] hc]
    show "\<exists>rest. calls = Connect ws (Project pid) #
                 Send_personal [(''type'', PyStr ''connection''),
                                (''message'', PyStr (''Connected to project '' @ str_int pid))] ws # rest"
      and "sent_messages calls =
        [(''type'', PyStr ''connection''), (''message'', PyStr (''Connected to project '' @ str_int pid))] #
        map (\<lambda>data. [(''type'', PyStr ''echo''), (''message'', PyStr data)])
          (if greeting = None then received_frames script else [])"
      and "returned \<longleftrightarrow> greeting \<noteq> None \<or> loop_ends script"
      and "if returned
       then reg' = disconnect ws (Project pid) (connect ws (Project pid) reg) \<and>
            ws \<notin> reg' (Project pid) \<and> last calls = Disconnect ws (Project pid)
       else reg' = connect ws (Project pid) reg"
      by blast+
  next
    assume a: "websocket_global_updates ws greeting script reg = (reg', calls, returned)"
    from handler_summary [OF a [symmetric, unfolded global_handler_result [OF cr]] hc]
    show "\<exists>rest. calls = Connect ws Global #
                 Send_personal [(''type'', PyStr ''connection''),
                                (''message'', PyStr ''Connected to global updates'')] ws # rest"
      and "sent_messages calls =
        [(''type'', PyStr ''connection''), (''message'', PyStr ''Connected to global updates'')] #
        map (\<lambda>data. [(''type'', PyStr ''echo''), (''message'', PyStr data)])
          (if greeting = None then received_frames script else [])"
      and "returned \<longleftrightarrow> greeting \<noteq> None \<or> loop_ends script"
      and "if returned
       then reg' = disconnect ws Global (connect ws Global reg) \<and>
            ws \<notin> reg' Global \<and> last calls = Disconnect ws Global
       else reg' = connect ws Global reg"
      by blast+
  qed
qed

lemma str_int_7: "str_int 7 = ''7''"
  by (simp add: str_int_def str_nat.simps digit_char_def)

lemma ex_script_run:
  "receive_loop 4 ex_script =
     ([Send_personal [(''type'', PyStr ''echo''), (''message'', PyStr ''ping'')] 4,
       Send_personal [(''type'', PyStr ''echo''), (''message'', PyStr ''{not json'')] 4],
      Some WebSocketDisconnect)"
  by (simp add: ex_script_def)

theorem websocket_handlers_greet_echo_unregister_witness:
  "websocket_project_updates 4 7 None ex_script ex_registry =
     (disconnect 4 (Project 7) (connect 4 (Project 7) ex_registry),
      [Connect 4 (Project 7),
       Send_personal [(''type'', PyStr ''connection''), (''message'', PyStr ''Connected to project 7'')] 4,
       Send_personal [(''type'', PyStr ''echo''), (''message'', PyStr ''ping'')] 4,
       Send_personal [(''type'', PyStr ''echo''), (''message'', PyStr ''{not json'')] 4,
       Disconnect 4 (Project 7)], True) \<and>
   4 \<notin> disconnect 4 (Project 7) (connect 4 (Project 7) ex_registry) (Project 7) \<and>
   websocket_global_updates 4 None ex_script ex_registry =
     (disconnect 4 Global (connect 4 Global ex_registry),
      [Connect 4 Global,
       Send_personal [(''type'', PyStr ''connection''), (''message'', PyStr ''Connected to global updates'')] 4,
       Send_personal [(''type'', PyStr ''echo''), (''message'', PyStr ''ping'')] 4,
       Send_personal [(''type'', PyStr ''echo''), (''message'', PyStr ''{not json'')] 4,
       Disconnect 4 Global], True) \<and>
   4 \<notin> disconnect 4 Global (connect 4 Global ex_registry) Global \<and>
   loop_ends ex_script \<and> received_frames ex_script = [''ping'', ''{not json'']"
proof -
  let ?calls = "[Connect 4 (Project 7),
       Send_personal [(''type'', PyStr ''connection''), (''message'', PyStr ''Connected to project 7'')] 4,
       Send_personal [(''type'', PyStr ''echo''), (''message'', PyStr ''ping'')] 4,
       Send_personal [(''type'', PyStr ''echo''), (''message'', PyStr ''{not json'')] 4,
       Disconnect 4 (Project 7)]"
  let ?reg = "disconnect 4 (Project 7) (connect 4 (Project 7) ex_registry)"
  let ?gcalls = "[Connect 4 Global,
       Send_personal [(''type'', PyStr ''connection''), (''message'', PyStr ''Connected to global updates'')] 4,
       Send_personal [(''type'', PyStr ''echo''), (''message'', PyStr ''ping'')] 4,
       Send_personal [(''type'', PyStr ''echo''), (''message'', PyStr ''{not json'')] 4,
       Disconnect 4 Global]"
  let ?greg = "disconnect 4 Global (connect 4 Global ex_registry)"
  have a: "websocket_project_updates 4 7 None ex_script ex_registry = (?reg, ?calls, True)"
    by (simp add: websocket_project_updates_def ex_script_run str_int_7)
  have g: "websocket_global_updates 4 None ex_script ex_registry = (?greg, ?gcalls, True)"
    by (simp add: websocket_global_updates_def ex_script_run)
  have c: "loop_ends ex_script" "received_frames ex_script = [''ping'', ''{not json'']"
    by (simp_all add: ex_script_def)
  note th = websocket_handlers_greet_echo_unregister
         [of 4 7 None ex_script ex_registry ?reg ?calls True]
  from th a have "if True then ?reg = disconnect 4 (Project 7) (connect 4 (Project 7) ex_registry) \<and>
            4 \<notin> ?reg (Project 7) \<and> last ?calls = Disconnect 4 (Project 7)
       else ?reg = connect 4 (Project 7) ex_registry"
    by blast
  then have p: "4 \<notin> ?reg (Project 7)" by simp
  note th2 = websocket_handlers_greet_echo_unregister
         [of 4 7 None ex_script ex_registry ?greg ?gcalls True]
  from th2 g have "if True then ?greg = disconnect 4 Global (connect 4 Global ex_registry) \<and>
            4 \<notin> ?greg Global \<and> last ?gcalls = Disconnect 4 Global
       else ?greg = connect 4 Global ex_registry"
    by blast
  then have q: "4 \<notin> ?greg Global" by simp
  from a g c p q show ?thesis by blast
qed

text \<open>
  C9. \<open>BroadcastToProject(n, P)\<close> sends the notification \<open>n\<close>, and nothing else, to
  every connection registered under the scope of project \<open>P\<close> when it is called, and
  to no other connection: a connection registered only under another project's scope
  or under the global scope is sent nothing.
\<close>

theorem broadcast_to_project_scope:
  "{c. \<exists>n' ok. (c, n', ok) \<in> broadcast_to_project reg accepts n P} = reg (Project P) \<and>
   (\<forall>c n' ok. (c, n', ok) \<in> broadcast_to_project reg accepts n P \<longrightarrow> n' = n \<and> ok = accepts c) \<and>
   (\<forall>s c. s \<noteq> Project P \<and> c \<in> reg s \<and> c \<notin> reg (Project P) \<longrightarrow>
      (\<forall>n' ok. (c, n', ok) \<notin> broadcast_to_project reg accepts n P))"
  by (auto simp: broadcast_to_project_def)

theorem broadcast_to_project_scope_witness:
  "broadcast_to_project ex_registry (\<lambda>c. True) ex_notification 7 = {(1, ex_notification, True)} \<and>
   2 \<in> ex_registry (Project 8) \<and> 3 \<in> ex_registry Global \<and>
   ex_registry (Project 7) = {1} \<and>
   (\<forall>n' ok. (2, n', ok) \<notin> broadcast_to_project ex_registry (\<lambda>c. True) ex_notification 7) \<and>
   (\<forall>n' ok. (3, n', ok) \<notin> broadcast_to_project ex_registry (\<lambda>c. True) ex_notification 7)"
proof -
  have r: "ex_registry (Project 7) = {1}" "2 \<in> ex_registry (Project 8)" "3 \<in> ex_registry Global"
    "2 \<notin> ex_registry (Project 7)" "3 \<notin> ex_registry (Project 7)"
    by (simp_all add: ex_registry_def connect_def)
  have b: "broadcast_to_project ex_registry (\<lambda>c. True) ex_notification 7 = {(1, ex_notification, True)}"
    by (simp add: broadcast_to_project_def r(1))
  have s: "Project 8 \<noteq> Project 7" "Global \<noteq> Project 7" by simp_all
  note th = broadcast_to_project_scope [of ex_registry "\<lambda>c. True" ex_notification 7]
  from th r(2,4) s(1)
  have x: "\<forall>n' ok. (2, n', ok) \<notin> broadcast_to_project ex_registry (\<lambda>c. True) ex_notification 7"
    by blast
  from th r(3,5) s(2)
  have y: "\<forall>n' ok. (3, n', ok) \<notin> broadcast_to_project ex_registry (\<lambda>c. True) ex_notification 7"
    by blast
  from r b x y show ?thesis by blast
qed

end
